theory Spec2Isabelle
  imports Main "HOL-Library.Word"
begin

unbundle bit_operations_syntax

section \<open>Data model of PipelineResourceSignatureBase.cpp\<close>

text \<open>
  The descriptor types are declared in headers; the model follows the way the
  source file reads them. A pointer is an \<open>option\<close> (\<open>None\<close> is \<open>nullptr\<close>), a
  C string is a \<open>string option\<close>, a pointer to an array is a \<open>list option\<close> holding
  the elements that are there, next to the element count the descriptor carries.
  The text of the error messages is not modelled, so \<open>Desc.Name\<close>, which only the
  messages read, is not a field of the model.
\<close>

type_synonym SHADER_TYPE = "32 word"
type_synonym PIPELINE_RESOURCE_FLAGS = "8 word"
type_synonym size_t = "64 word"

text \<open>
  Modelled from the spec: the closed set of resource kinds of section 3. The source
  asserts \<open>SHADER_RESOURCE_TYPE_LAST == 8\<close>: with the unknown kind there are nine
  enumerators.
\<close>

datatype SHADER_RESOURCE_TYPE =
    SHADER_RESOURCE_TYPE_UNKNOWN
  | SHADER_RESOURCE_TYPE_CONSTANT_BUFFER
  | SHADER_RESOURCE_TYPE_TEXTURE_SRV
  | SHADER_RESOURCE_TYPE_BUFFER_SRV
  | SHADER_RESOURCE_TYPE_TEXTURE_UAV
  | SHADER_RESOURCE_TYPE_BUFFER_UAV
  | SHADER_RESOURCE_TYPE_SAMPLER
  | SHADER_RESOURCE_TYPE_INPUT_ATTACHMENT
  | SHADER_RESOURCE_TYPE_ACCEL_STRUCT

text \<open>Modelled from the spec: the variable types static, mutable and dynamic.\<close>

datatype SHADER_RESOURCE_VARIABLE_TYPE =
    SHADER_RESOURCE_VARIABLE_TYPE_STATIC
  | SHADER_RESOURCE_VARIABLE_TYPE_MUTABLE
  | SHADER_RESOURCE_VARIABLE_TYPE_DYNAMIC

text \<open>
  Modelled from the spec: a stage mask is a bitset and must be non-empty, so the
  value \<open>SHADER_TYPE_UNKNOWN\<close> that the source rejects is the empty bitset.
\<close>

definition SHADER_TYPE_UNKNOWN :: SHADER_TYPE where
  "SHADER_TYPE_UNKNOWN = 0"

record PipelineResourceDesc =
  Name :: "string option"
  ShaderStages :: SHADER_TYPE
  ArraySize :: "32 word"
  ResourceType :: SHADER_RESOURCE_TYPE
  VarType :: SHADER_RESOURCE_VARIABLE_TYPE
  Flags :: PIPELINE_RESOURCE_FLAGS

text \<open>
  The sampler state \<open>Desc\<close> of an immutable sampler is opaque here (type \<open>'sd\<close>).
  Modelled from the spec: it is compared by full value equality.
\<close>

record 'sd ImmutableSamplerDesc =
  ImtblShaderStages :: SHADER_TYPE
  SamplerOrTextureName :: "string option"
  Desc :: 'sd

record 'sd PipelineResourceSignatureDesc =
  Resources :: "PipelineResourceDesc list option"
  NumResources :: "32 word"
  ImmutableSamplers :: "'sd ImmutableSamplerDesc list option"
  NumImmutableSamplers :: "32 word"
  BindingIndex :: "8 word"
  UseCombinedTextureSamplers :: bool
  CombinedSamplerSuffix :: "string option"

text \<open>
  The constants and the table that the validator takes from headers are parameters
  of the model.
\<close>

record Limits =
  MAX_RESOURCE_SIGNATURES :: nat
  MAX_RESOURCES_IN_SIGNATURE :: nat
  PIPELINE_RESOURCE_FLAG_RUNTIME_ARRAY :: PIPELINE_RESOURCE_FLAGS
  GetValidPipelineResourceFlags :: "SHADER_RESOURCE_TYPE \<Rightarrow> PIPELINE_RESOURCE_FLAGS"

section \<open>Errors\<close>

text \<open>One constructor for each \<open>LOG_PRS_ERROR_AND_THROW\<close> of the source, in its order.\<close>

datatype prs_error =
    BindingIndexExceedsMax
  | NumResourcesExceedsMax
  | ResourcesIsNull
  | ImmutableSamplersIsNull
  | CombinedSamplerSuffixNullOrEmpty
  | ResourceNameNull
  | ResourceNameEmpty
  | ResourceStagesUnknown
  | ResourceArraySizeZero
  | ResourceOverlappingStages
  | RuntimeArrayNotSupported
  | IncorrectResourceFlags
  | CombinedResourceNotSampler
  | CombinedDifferentStages
  | CombinedVarTypeMismatch
  | SamplerNotAssigned
  | ImtblSamplerNameNull
  | ImtblSamplerNameEmpty
  | ImtblSamplerOverlappingStages

text \<open>
  Reading an array past the elements that are there, or through a null pointer, is
  undefined behaviour in C++. The model makes it an outcome of its own, so that no
  theorem rests on what such a read would return.
\<close>

datatype fault = Thrown prs_error | Undefined

text \<open>
  The error taxonomy of section 7 of the spec, and the kind of each throw. Section 7
  names no kind for a null array, an empty stage mask or an array size of zero; they
  are filed under \<open>NullOrEmptyField\<close>, and the immutable-sampler collision under
  \<open>DuplicateImmutableSampler\<close>. No theorem below rests on these five entries.
\<close>

datatype ErrorKind =
    LimitExceeded
  | NullOrEmptyField
  | DuplicateNameOverlappingStages
  | InvalidFlagsForResourceType
  | CombinedSamplerMismatch
  | UnassignedSampler
  | DuplicateImmutableSampler

fun error_kind :: "prs_error \<Rightarrow> ErrorKind" where
  "error_kind BindingIndexExceedsMax = LimitExceeded"
| "error_kind NumResourcesExceedsMax = LimitExceeded"
| "error_kind ResourcesIsNull = NullOrEmptyField"
| "error_kind ImmutableSamplersIsNull = NullOrEmptyField"
| "error_kind CombinedSamplerSuffixNullOrEmpty = NullOrEmptyField"
| "error_kind ResourceNameNull = NullOrEmptyField"
| "error_kind ResourceNameEmpty = NullOrEmptyField"
| "error_kind ResourceStagesUnknown = NullOrEmptyField"
| "error_kind ResourceArraySizeZero = NullOrEmptyField"
| "error_kind ResourceOverlappingStages = DuplicateNameOverlappingStages"
| "error_kind RuntimeArrayNotSupported = InvalidFlagsForResourceType"
| "error_kind IncorrectResourceFlags = InvalidFlagsForResourceType"
| "error_kind CombinedResourceNotSampler = CombinedSamplerMismatch"
| "error_kind CombinedDifferentStages = CombinedSamplerMismatch"
| "error_kind CombinedVarTypeMismatch = CombinedSamplerMismatch"
| "error_kind SamplerNotAssigned = UnassignedSampler"
| "error_kind ImtblSamplerNameNull = NullOrEmptyField"
| "error_kind ImtblSamplerNameEmpty = NullOrEmptyField"
| "error_kind ImtblSamplerOverlappingStages = DuplicateImmutableSampler"

section \<open>ValidatePipelineResourceSignatureDesc\<close>

text \<open>The elements behind an array pointer; a null pointer has none.\<close>

definition elems :: "'a list option \<Rightarrow> 'a list" where
  "elems p = (case p of None \<Rightarrow> [] | Some xs \<Rightarrow> xs)"

text \<open>
  \<open>for (Uint32 i = 0; i < n; ++i) { const auto& x = A[i]; body }\<close>: the body runs on
  \<open>A[0]\<close>, \<open>A[1]\<close>, ... and a throw leaves the loop. The first argument counts the
  iterations that remain, the list holds the elements from \<open>A[i]\<close> on; an iteration
  with no element left to read is undefined behaviour.
\<close>

fun for_each :: "('a \<Rightarrow> 's \<Rightarrow> fault + 's) \<Rightarrow> nat \<Rightarrow> 'a list \<Rightarrow> 's \<Rightarrow> fault + 's" where
  "for_each body 0 xs st = Inr st"
| "for_each body (Suc n) [] st = Inl Undefined"
| "for_each body (Suc n) (x # xs) st =
     (case body x st of Inl e \<Rightarrow> Inl e | Inr st' \<Rightarrow> for_each body n xs st')"

text \<open>
  The state of the first loop: \<open>ResourceShaderStages\<close>, an \<open>unordered_map\<close> from a name
  to the stages seen under it (\<open>operator[]\<close> starts a new name at 0), and
  \<open>ResourcesByName\<close>, an \<open>unordered_multimap\<close>, as an association list. C++ leaves
  the order in which such a container is traversed open; the list keeps the order of
  insertion. The keys are compared as strings.
\<close>

type_synonym stage_map = "string \<rightharpoonup> SHADER_TYPE"
type_synonym resources_by_name = "(string \<times> PipelineResourceDesc) list"

definition used_stages :: "stage_map \<Rightarrow> string \<Rightarrow> SHADER_TYPE" where
  "used_stages m n = (case m n of None \<Rightarrow> 0 | Some s \<Rightarrow> s)"

text \<open>The body of the loop over \<open>Desc.Resources\<close> (lines 63 to 101).\<close>

definition validate_resource ::
  "Limits \<Rightarrow> bool \<Rightarrow> PipelineResourceDesc \<Rightarrow> stage_map \<times> resources_by_name
     \<Rightarrow> fault + stage_map \<times> resources_by_name" where
  "validate_resource lim ShaderResourceRuntimeArraySupported Res st =
     (case Name Res of
        None \<Rightarrow> Inl (Thrown ResourceNameNull)
      | Some n \<Rightarrow>
          if n = [] then Inl (Thrown ResourceNameEmpty)
          else if ShaderStages Res = SHADER_TYPE_UNKNOWN then Inl (Thrown ResourceStagesUnknown)
          else if ArraySize Res = 0 then Inl (Thrown ResourceArraySizeZero)
          else if used_stages (fst st) n AND ShaderStages Res \<noteq> 0
            then Inl (Thrown ResourceOverlappingStages)
          else if Flags Res AND PIPELINE_RESOURCE_FLAG_RUNTIME_ARRAY lim \<noteq> 0
                  \<and> \<not> ShaderResourceRuntimeArraySupported
            then Inl (Thrown RuntimeArrayNotSupported)
          else if Flags Res AND NOT (GetValidPipelineResourceFlags lim (ResourceType Res)) \<noteq> 0
            then Inl (Thrown IncorrectResourceFlags)
          else Inr ((fst st)(n \<mapsto> used_stages (fst st) n OR ShaderStages Res),
                    snd st @ [(n, Res)]))"

text \<open>
  The inner loop over \<open>equal_range(AssignedSamplerName)\<close> (lines 125 to 154): the first
  entry under that name whose stages overlap the texture's is checked and erased, and
  the loop ends there.
\<close>

fun claim_sampler ::
  "string \<Rightarrow> PipelineResourceDesc \<Rightarrow> resources_by_name \<Rightarrow> fault + resources_by_name" where
  "claim_sampler AssignedSamplerName Res [] = Inr []"
| "claim_sampler AssignedSamplerName Res ((k, Sam) # ws) =
     (if k = AssignedSamplerName \<and> ShaderStages Sam AND ShaderStages Res \<noteq> 0 then
        if ResourceType Sam \<noteq> SHADER_RESOURCE_TYPE_SAMPLER then Inl (Thrown CombinedResourceNotSampler)
        else if ShaderStages Sam \<noteq> ShaderStages Res then Inl (Thrown CombinedDifferentStages)
        else if VarType Sam \<noteq> VarType Res then Inl (Thrown CombinedVarTypeMismatch)
        else Inr ws
      else (case claim_sampler AssignedSamplerName Res ws of
              Inl e \<Rightarrow> Inl e
            | Inr ws' \<Rightarrow> Inr ((k, Sam) # ws')))"

text \<open>
  The body of the loop of lines 118 to 156. \<open>String{Res.Name} + Desc.CombinedSamplerSuffix\<close>
  reads both pointers; the checks before the loop have made sure neither is null (the
  source asserts it with \<open>VERIFY_EXPR\<close>).
\<close>

definition assign_sampler ::
  "string option \<Rightarrow> PipelineResourceDesc \<Rightarrow> resources_by_name \<Rightarrow> fault + resources_by_name" where
  "assign_sampler suffix Res ws =
     (if ResourceType Res = SHADER_RESOURCE_TYPE_TEXTURE_SRV then
        (case (Name Res, suffix) of
           (Some n, Some sfx) \<Rightarrow> claim_sampler (n @ sfx) Res ws
         | _ \<Rightarrow> Inl Undefined)
      else Inr ws)"

text \<open>The loop of lines 158 to 164 over what is left in \<open>ResourcesByName\<close>.\<close>

fun check_unassigned :: "resources_by_name \<Rightarrow> fault + unit" where
  "check_unassigned [] = Inr ()"
| "check_unassigned ((k, r) # ws) =
     (if ResourceType r = SHADER_RESOURCE_TYPE_SAMPLER then Inl (Thrown SamplerNotAssigned)
      else check_unassigned ws)"

text \<open>The body of the loop over \<open>Desc.ImmutableSamplers\<close> (lines 170 to 184).\<close>

definition validate_immutable_sampler ::
  "'sd ImmutableSamplerDesc \<Rightarrow> stage_map \<Rightarrow> fault + stage_map" where
  "validate_immutable_sampler SamDesc ImtblSamShaderStages =
     (case SamplerOrTextureName SamDesc of
        None \<Rightarrow> Inl (Thrown ImtblSamplerNameNull)
      | Some n \<Rightarrow>
          if n = [] then Inl (Thrown ImtblSamplerNameEmpty)
          else if used_stages ImtblSamShaderStages n AND ImtblShaderStages SamDesc \<noteq> 0
            then Inl (Thrown ImtblSamplerOverlappingStages)
          else Inr (ImtblSamShaderStages
                      (n \<mapsto> used_stages ImtblSamShaderStages n OR ImtblShaderStages SamDesc)))"

text \<open>The checks of lines 42 to 55, before any element is read.\<close>

definition header_checks :: "Limits \<Rightarrow> 'sd PipelineResourceSignatureDesc \<Rightarrow> fault + unit" where
  "header_checks lim D =
     (if unat (BindingIndex D) \<ge> MAX_RESOURCE_SIGNATURES lim
        then Inl (Thrown BindingIndexExceedsMax)
      else if unat (NumResources D) > MAX_RESOURCES_IN_SIGNATURE lim
        then Inl (Thrown NumResourcesExceedsMax)
      else if NumResources D \<noteq> 0 \<and> Resources D = None
        then Inl (Thrown ResourcesIsNull)
      else if NumImmutableSamplers D \<noteq> 0 \<and> ImmutableSamplers D = None
        then Inl (Thrown ImmutableSamplersIsNull)
      else if UseCombinedTextureSamplers D
              \<and> (CombinedSamplerSuffix D = None \<or> CombinedSamplerSuffix D = Some [])
        then Inl (Thrown CombinedSamplerSuffixNullOrEmpty)
      else Inr ())"

text \<open>Lines 115 to 165: the pairing of textures and samplers.\<close>

definition combined_samplers ::
  "'sd PipelineResourceSignatureDesc \<Rightarrow> resources_by_name \<Rightarrow> fault + unit" where
  "combined_samplers D ResourcesByName =
     (case for_each (assign_sampler (CombinedSamplerSuffix D))
             (unat (NumResources D)) (elems (Resources D)) ResourcesByName of
        Inl e \<Rightarrow> Inl e
      | Inr ws \<Rightarrow> check_unassigned ws)"

definition ValidatePipelineResourceSignatureDesc ::
  "Limits \<Rightarrow> 'sd PipelineResourceSignatureDesc \<Rightarrow> bool \<Rightarrow> fault + unit" where
  "ValidatePipelineResourceSignatureDesc lim D ShaderResourceRuntimeArraySupported =
     (case header_checks lim D of
        Inl e \<Rightarrow> Inl e
      | Inr _ \<Rightarrow>
          (case for_each (validate_resource lim ShaderResourceRuntimeArraySupported)
                  (unat (NumResources D)) (elems (Resources D)) (Map.empty, []) of
             Inl e \<Rightarrow> Inl e
           | Inr st \<Rightarrow>
               (case (if UseCombinedTextureSamplers D then combined_samplers D (snd st)
                      else Inr ()) of
                  Inl e \<Rightarrow> Inl e
                | Inr _ \<Rightarrow>
                    (case for_each validate_immutable_sampler
                            (unat (NumImmutableSamplers D)) (elems (ImmutableSamplers D))
                            Map.empty of
                       Inl e \<Rightarrow> Inl e
                     | Inr _ \<Rightarrow> Inr ()))))"

section \<open>FindImmutableSampler\<close>

text \<open>
  Modelled from the spec: \<open>StreqSuff\<close> of StringTools.hpp is not in the source at hand.
  Section 4.4 of the spec gives the test on the names: the entry's
  \<open>samplerOrTextureName\<close> equals \<open>resourceName\<close>, or equals \<open>resourceName ++ suffix\<close> when
  a suffix is supplied. The arguments are in the order of the call,
  \<open>StreqSuff(ResourceName, Sam.SamplerOrTextureName, SamplerSuffix)\<close>.
\<close>

definition StreqSuff :: "string \<Rightarrow> string \<Rightarrow> string option \<Rightarrow> bool" where
  "StreqSuff RefStr Str Suff =
     (Str = RefStr \<or> (case Suff of None \<Rightarrow> False | Some sfx \<Rightarrow> Str = RefStr @ sfx))"

text \<open>
  The loop of \<open>FindImmutableSampler\<close>; \<open>s\<close> is the index of the head of the list. The
  names are read only when the stages intersect (\<open>&&\<close> does not evaluate its right
  operand otherwise). \<open>DEV_CHECK_ERR\<close> is a diagnostic of development builds and has no
  part in what is returned. \<open>None\<close> is undefined behaviour.
\<close>

fun find_immutable_sampler ::
  "32 word \<Rightarrow> SHADER_TYPE \<Rightarrow> string option \<Rightarrow> string option \<Rightarrow> nat \<Rightarrow> nat
     \<Rightarrow> 'sd ImmutableSamplerDesc list \<Rightarrow> 32 word option" where
  "find_immutable_sampler InvalidImmutableSamplerIndex stages ResourceName SamplerSuffix s 0 xs =
     Some InvalidImmutableSamplerIndex"
| "find_immutable_sampler InvalidImmutableSamplerIndex stages ResourceName SamplerSuffix s (Suc n) [] =
     None"
| "find_immutable_sampler InvalidImmutableSamplerIndex stages ResourceName SamplerSuffix s (Suc n) (Sam # xs) =
     (if ImtblShaderStages Sam AND stages \<noteq> 0 then
        (case (ResourceName, SamplerOrTextureName Sam) of
           (Some r, Some nm) \<Rightarrow>
             if StreqSuff r nm SamplerSuffix then Some (word_of_nat s)
             else find_immutable_sampler InvalidImmutableSamplerIndex stages ResourceName
                    SamplerSuffix (Suc s) n xs
         | _ \<Rightarrow> None)
      else find_immutable_sampler InvalidImmutableSamplerIndex stages ResourceName
             SamplerSuffix (Suc s) n xs)"

text \<open>The sentinel \<open>InvalidImmutableSamplerIndex\<close> comes from a header: a parameter.\<close>

definition FindImmutableSampler ::
  "32 word \<Rightarrow> 'sd ImmutableSamplerDesc list option \<Rightarrow> 32 word \<Rightarrow> SHADER_TYPE
     \<Rightarrow> string option \<Rightarrow> string option \<Rightarrow> 32 word option" where
  "FindImmutableSampler InvalidImmutableSamplerIndex ImtblSamplers NumImtblSamplers stages
       ResourceName SamplerSuffix =
     find_immutable_sampler InvalidImmutableSamplerIndex stages ResourceName SamplerSuffix
       0 (unat NumImtblSamplers) (elems ImtblSamplers)"

section \<open>Compatibility and hash\<close>

definition PipelineResourcesCompatible :: "PipelineResourceDesc \<Rightarrow> PipelineResourceDesc \<Rightarrow> bool" where
  "PipelineResourcesCompatible lhs rhs =
     (ShaderStages lhs = ShaderStages rhs \<and>
      ArraySize lhs = ArraySize rhs \<and>
      ResourceType lhs = ResourceType rhs \<and>
      VarType lhs = VarType rhs \<and>
      Flags lhs = Flags rhs)"

text \<open>
  The two loops of the comparator read both arrays at the same index; \<open>return false\<close>
  leaves the function. \<open>None\<close> is undefined behaviour (a read past either array).
\<close>

fun resources_compatible ::
  "nat \<Rightarrow> PipelineResourceDesc list \<Rightarrow> PipelineResourceDesc list \<Rightarrow> bool option" where
  "resources_compatible 0 xs ys = Some True"
| "resources_compatible (Suc n) (x # xs) (y # ys) =
     (if \<not> PipelineResourcesCompatible x y then Some False else resources_compatible n xs ys)"
| "resources_compatible (Suc n) xs ys = None"

fun samplers_compatible ::
  "nat \<Rightarrow> 'sd ImmutableSamplerDesc list \<Rightarrow> 'sd ImmutableSamplerDesc list \<Rightarrow> bool option" where
  "samplers_compatible 0 xs ys = Some True"
| "samplers_compatible (Suc n) (Samp0 # xs) (Samp1 # ys) =
     (if ImtblShaderStages Samp0 \<noteq> ImtblShaderStages Samp1 \<or> \<not> (Desc Samp0 = Desc Samp1)
      then Some False else samplers_compatible n xs ys)"
| "samplers_compatible (Suc n) xs ys = None"

definition PipelineResourceSignaturesCompatible ::
  "'sd PipelineResourceSignatureDesc \<Rightarrow> 'sd PipelineResourceSignatureDesc \<Rightarrow> bool option" where
  "PipelineResourceSignaturesCompatible Desc0 Desc1 =
     (if BindingIndex Desc0 \<noteq> BindingIndex Desc1 then Some False
      else if NumResources Desc0 \<noteq> NumResources Desc1 then Some False
      else (case resources_compatible (unat (NumResources Desc0))
                   (elems (Resources Desc0)) (elems (Resources Desc1)) of
              None \<Rightarrow> None
            | Some False \<Rightarrow> Some False
            | Some True \<Rightarrow>
                if NumImmutableSamplers Desc0 \<noteq> NumImmutableSamplers Desc1 then Some False
                else samplers_compatible (unat (NumImmutableSamplers Desc0))
                       (elems (ImmutableSamplers Desc0)) (elems (ImmutableSamplers Desc1))))"

text \<open>
  \<open>ComputeHash\<close> and \<open>HashCombine\<close> of HashUtils.hpp are parameters: the seed of three
  values, the call that folds in the five values of a resource (with its conversions
  to \<open>Uint32\<close>), and the call that folds in the stages and the state of a sampler.
\<close>

record 'sd HashUtils =
  ComputeHash :: "32 word \<Rightarrow> 32 word \<Rightarrow> 8 word \<Rightarrow> size_t"
  HashCombineResource ::
    "size_t \<Rightarrow> SHADER_TYPE \<Rightarrow> 32 word \<Rightarrow> SHADER_RESOURCE_TYPE
       \<Rightarrow> SHADER_RESOURCE_VARIABLE_TYPE \<Rightarrow> PIPELINE_RESOURCE_FLAGS \<Rightarrow> size_t"
  HashCombineSampler :: "size_t \<Rightarrow> SHADER_TYPE \<Rightarrow> 'sd \<Rightarrow> size_t"

fun hash_resources ::
  "'sd HashUtils \<Rightarrow> nat \<Rightarrow> PipelineResourceDesc list \<Rightarrow> size_t \<Rightarrow> size_t option" where
  "hash_resources H 0 xs Hash = Some Hash"
| "hash_resources H (Suc n) [] Hash = None"
| "hash_resources H (Suc n) (Res # xs) Hash =
     hash_resources H n xs
       (HashCombineResource H Hash (ShaderStages Res) (ArraySize Res) (ResourceType Res)
          (VarType Res) (Flags Res))"

fun hash_samplers ::
  "'sd HashUtils \<Rightarrow> nat \<Rightarrow> 'sd ImmutableSamplerDesc list \<Rightarrow> size_t \<Rightarrow> size_t option" where
  "hash_samplers H 0 xs Hash = Some Hash"
| "hash_samplers H (Suc n) [] Hash = None"
| "hash_samplers H (Suc n) (Sam # xs) Hash =
     hash_samplers H n xs (HashCombineSampler H Hash (ImtblShaderStages Sam) (Desc Sam))"

definition CalculatePipelineResourceSignatureDescHash ::
  "'sd HashUtils \<Rightarrow> 'sd PipelineResourceSignatureDesc \<Rightarrow> size_t option" where
  "CalculatePipelineResourceSignatureDescHash H D =
     (if NumResources D = 0 \<and> NumImmutableSamplers D = 0 then Some 0
      else (case hash_resources H (unat (NumResources D)) (elems (Resources D))
                   (ComputeHash H (NumResources D) (NumImmutableSamplers D) (BindingIndex D)) of
              None \<Rightarrow> None
            | Some Hash \<Rightarrow>
                hash_samplers H (unat (NumImmutableSamplers D)) (elems (ImmutableSamplers D)) Hash))"

section \<open>Concrete configurations\<close>

text \<open>A configuration of the limits, for evaluating the validator on concrete descriptors.\<close>

definition example_limits :: Limits where
  "example_limits =
     \<lparr> MAX_RESOURCE_SIGNATURES = 8,
       MAX_RESOURCES_IN_SIGNATURE = 1024,
       PIPELINE_RESOURCE_FLAG_RUNTIME_ARRAY = 8,
       GetValidPipelineResourceFlags = (\<lambda>t.
         if t = SHADER_RESOURCE_TYPE_TEXTURE_SRV \<or> t = SHADER_RESOURCE_TYPE_CONSTANT_BUFFER
         then 8 else 0) \<rparr>"

definition example_hash :: "nat HashUtils" where
  "example_hash =
     \<lparr> ComputeHash = (\<lambda>a b c. ucast a + 3 * ucast b + 5 * ucast c),
       HashCombineResource = (\<lambda>h s a t v f. 31 * h + ucast s + ucast a + ucast f),
       HashCombineSampler = (\<lambda>h s d. 31 * h + ucast s + word_of_nat d) \<rparr>"

text \<open>A resource with one element and no flags.\<close>

definition resource ::
  "string \<Rightarrow> SHADER_TYPE \<Rightarrow> SHADER_RESOURCE_TYPE \<Rightarrow> SHADER_RESOURCE_VARIABLE_TYPE
     \<Rightarrow> PipelineResourceDesc" where
  "resource n stages t v =
     \<lparr> Name = Some n, ShaderStages = stages, ArraySize = 1, ResourceType = t, VarType = v,
       Flags = 0 \<rparr>"

text \<open>A signature at binding index 0 with the given resources and no immutable samplers.\<close>

definition signature ::
  "PipelineResourceDesc list \<Rightarrow> bool \<Rightarrow> string option \<Rightarrow> nat PipelineResourceSignatureDesc" where
  "signature rs combined suffix =
     \<lparr> Resources = Some rs, NumResources = word_of_nat (length rs),
       ImmutableSamplers = None, NumImmutableSamplers = 0, BindingIndex = 0,
       UseCombinedTextureSamplers = combined, CombinedSamplerSuffix = suffix \<rparr>"

text \<open>A descriptor that breaks the first check and several later ones.\<close>

definition bad_index_desc :: "nat PipelineResourceSignatureDesc" where
  "bad_index_desc =
     \<lparr> Resources = None, NumResources = 5, ImmutableSamplers = None,
       NumImmutableSamplers = 0, BindingIndex = 8,
       UseCombinedTextureSamplers = True, CombinedSamplerSuffix = None \<rparr>"

text \<open>Descriptors whose counts are not zero while the array pointer is null.\<close>

definition null_resources_desc :: "nat PipelineResourceSignatureDesc" where
  "null_resources_desc =
     \<lparr> Resources = None, NumResources = 2, ImmutableSamplers = None,
       NumImmutableSamplers = 0, BindingIndex = 0,
       UseCombinedTextureSamplers = False, CombinedSamplerSuffix = None \<rparr>"

definition null_samplers_desc :: "nat PipelineResourceSignatureDesc" where
  "null_samplers_desc =
     \<lparr> Resources = Some [resource ''g_Tex'' 2 SHADER_RESOURCE_TYPE_TEXTURE_SRV
                           SHADER_RESOURCE_VARIABLE_TYPE_STATIC],
       NumResources = 1, ImmutableSamplers = None,
       NumImmutableSamplers = 1, BindingIndex = 0,
       UseCombinedTextureSamplers = False, CombinedSamplerSuffix = None \<rparr>"

text \<open>An empty signature at binding index 3.\<close>

definition empty_desc :: "nat PipelineResourceSignatureDesc" where
  "empty_desc =
     \<lparr> Resources = None, NumResources = 0, ImmutableSamplers = None,
       NumImmutableSamplers = 0, BindingIndex = 3,
       UseCombinedTextureSamplers = False, CombinedSamplerSuffix = None \<rparr>"

text \<open>Two signatures that differ in the names only.\<close>

definition named_desc :: "string \<Rightarrow> string \<Rightarrow> nat PipelineResourceSignatureDesc" where
  "named_desc n m =
     \<lparr> Resources = Some [resource n 2 SHADER_RESOURCE_TYPE_TEXTURE_SRV
                           SHADER_RESOURCE_VARIABLE_TYPE_STATIC],
       NumResources = 1,
       ImmutableSamplers = Some [\<lparr> ImtblShaderStages = 2, SamplerOrTextureName = Some m,
                                   Desc = 7 \<rparr>],
       NumImmutableSamplers = 1, BindingIndex = 1,
       UseCombinedTextureSamplers = False, CombinedSamplerSuffix = None \<rparr>"

text \<open>An array of immutable samplers for the locator.\<close>

definition example_samplers :: "nat ImmutableSamplerDesc list" where
  "example_samplers =
     [\<lparr> ImtblShaderStages = 1, SamplerOrTextureName = Some ''g_Tex'', Desc = 0 \<rparr>,
      \<lparr> ImtblShaderStages = 2, SamplerOrTextureName = Some ''g_Other'', Desc = 1 \<rparr>,
      \<lparr> ImtblShaderStages = 6, SamplerOrTextureName = Some ''g_Tex_sampler'', Desc = 2 \<rparr>,
      \<lparr> ImtblShaderStages = 2, SamplerOrTextureName = Some ''g_Tex'', Desc = 3 \<rparr>]"

text \<open>
  Modelled from the spec: a stage mask has one bit for each shader stage, and the
  vertex stage and the fragment (pixel) stage are different stages.
\<close>

definition SHADER_TYPE_VERTEX :: SHADER_TYPE where
  "SHADER_TYPE_VERTEX = 1"

definition SHADER_TYPE_PIXEL :: SHADER_TYPE where
  "SHADER_TYPE_PIXEL = 2"

text \<open>
  The combined-mode descriptor of the pairing scenario: texture \<open>Tex\<close>, a sampler
  \<open>Tex_suffix\<close> of the same variable type, suffix \<open>_suffix\<close>.
\<close>

definition pairing_desc ::
  "SHADER_TYPE \<Rightarrow> SHADER_TYPE \<Rightarrow> SHADER_RESOURCE_VARIABLE_TYPE
     \<Rightarrow> nat PipelineResourceSignatureDesc" where
  "pairing_desc texture_stages sampler_stages v =
     signature [resource ''Tex'' texture_stages SHADER_RESOURCE_TYPE_TEXTURE_SRV v,
                resource ''Tex_suffix'' sampler_stages SHADER_RESOURCE_TYPE_SAMPLER v]
       True (Some ''_suffix'')"

text \<open>A resource that carries the flag 8, and a descriptor that holds it after a constant buffer.\<close>

definition flagged_resource :: "SHADER_RESOURCE_TYPE \<Rightarrow> PipelineResourceDesc" where
  "flagged_resource t =
     \<lparr> Name = Some ''g_Arr'', ShaderStages = 2, ArraySize = 4, ResourceType = t,
       VarType = SHADER_RESOURCE_VARIABLE_TYPE_MUTABLE, Flags = 8 \<rparr>"

definition flagged_desc :: "SHADER_RESOURCE_TYPE \<Rightarrow> nat PipelineResourceSignatureDesc" where
  "flagged_desc t =
     signature [resource ''g_CB'' 1 SHADER_RESOURCE_TYPE_CONSTANT_BUFFER
                  SHADER_RESOURCE_VARIABLE_TYPE_STATIC,
                flagged_resource t]
       False None"

text \<open>
  What the first loop keeps true of its two containers: the entries of
  \<open>ResourcesByName\<close> are distinct, each is filed under its own name, has stages that
  are not empty and lie within the stages recorded for that name, and two entries
  under one name share no stage.
\<close>

definition byname_inv :: "stage_map \<Rightarrow> resources_by_name \<Rightarrow> bool" where
  "byname_inv m bn \<longleftrightarrow>
     distinct bn
     \<and> (\<forall>(k, r) \<in> set bn. Name r = Some k \<and> ShaderStages r \<noteq> 0
            \<and> ShaderStages r AND used_stages m k = ShaderStages r)
     \<and> (\<forall>(k, r) \<in> set bn. \<forall>(k', r') \<in> set bn.
            k = k' \<and> r \<noteq> r' \<longrightarrow> ShaderStages r AND ShaderStages r' = 0)"

text \<open>A combined-mode descriptor with a sampler that no texture claims.\<close>

definition lonely_resources :: "PipelineResourceDesc list" where
  "lonely_resources =
     [resource ''g_Tex'' 2 SHADER_RESOURCE_TYPE_TEXTURE_SRV SHADER_RESOURCE_VARIABLE_TYPE_STATIC,
      resource ''g_Tex2'' 2 SHADER_RESOURCE_TYPE_TEXTURE_SRV SHADER_RESOURCE_VARIABLE_TYPE_STATIC,
      resource ''g_Tex2_sampler'' 2 SHADER_RESOURCE_TYPE_SAMPLER SHADER_RESOURCE_VARIABLE_TYPE_STATIC,
      resource ''g_Lonely'' 1 SHADER_RESOURCE_TYPE_SAMPLER SHADER_RESOURCE_VARIABLE_TYPE_STATIC]"

definition lonely_by_name :: resources_by_name where
  "lonely_by_name =
     [(''g_Tex'', resource ''g_Tex'' 2 SHADER_RESOURCE_TYPE_TEXTURE_SRV
                   SHADER_RESOURCE_VARIABLE_TYPE_STATIC),
      (''g_Tex2'', resource ''g_Tex2'' 2 SHADER_RESOURCE_TYPE_TEXTURE_SRV
                    SHADER_RESOURCE_VARIABLE_TYPE_STATIC),
      (''g_Tex2_sampler'', resource ''g_Tex2_sampler'' 2 SHADER_RESOURCE_TYPE_SAMPLER
                            SHADER_RESOURCE_VARIABLE_TYPE_STATIC),
      (''g_Lonely'', resource ''g_Lonely'' 1 SHADER_RESOURCE_TYPE_SAMPLER
                      SHADER_RESOURCE_VARIABLE_TYPE_STATIC)]"

definition lonely_desc :: "nat PipelineResourceSignatureDesc" where
  "lonely_desc = signature lonely_resources True (Some ''_sampler'')"

text \<open>A combined-mode descriptor with a texture and the sampler named after it.\<close>

definition mismatch_desc :: "SHADER_TYPE \<Rightarrow> nat PipelineResourceSignatureDesc" where
  "mismatch_desc sampler_stages =
     signature [resource ''g_CB'' 3 SHADER_RESOURCE_TYPE_CONSTANT_BUFFER
                  SHADER_RESOURCE_VARIABLE_TYPE_STATIC,
                resource ''g_Tex'' 2 SHADER_RESOURCE_TYPE_TEXTURE_SRV
                  SHADER_RESOURCE_VARIABLE_TYPE_MUTABLE,
                resource ''g_Tex_sampler'' sampler_stages SHADER_RESOURCE_TYPE_SAMPLER
                  SHADER_RESOURCE_VARIABLE_TYPE_MUTABLE]
       True (Some ''_sampler'')"

text \<open>
  The checks of the first loop that concern a resource alone (lines 65 to 75 and
  86 to 99): its name, its stages, its array size and its flags.
\<close>

definition own_checks :: "Limits \<Rightarrow> bool \<Rightarrow> PipelineResourceDesc \<Rightarrow> bool" where
  "own_checks lim supported r \<longleftrightarrow>
     (\<exists>k. Name r = Some k \<and> k \<noteq> [])
     \<and> ShaderStages r \<noteq> SHADER_TYPE_UNKNOWN \<and> ArraySize r \<noteq> 0
     \<and> (Flags r AND PIPELINE_RESOURCE_FLAG_RUNTIME_ARRAY lim = 0 \<or> supported)
     \<and> Flags r AND NOT (GetValidPipelineResourceFlags lim (ResourceType r)) = 0"

text \<open>
  A second fact the first loop keeps true: a stage recorded for a name in
  \<open>ResourceShaderStages\<close> is a stage of some entry filed under that name.
\<close>

definition stage_cover :: "stage_map \<Rightarrow> resources_by_name \<Rightarrow> bool" where
  "stage_cover m bn \<longleftrightarrow>
     (\<forall>k s. (\<forall>r. (k, r) \<in> set bn \<longrightarrow> ShaderStages r AND s = 0) \<longrightarrow> used_stages m k AND s = 0)"

text \<open>In a list of resources, a resource shares no stage with a later one of its name.\<close>

fun same_names_disjoint :: "PipelineResourceDesc list \<Rightarrow> bool" where
  "same_names_disjoint [] = True"
| "same_names_disjoint (x # xs) =
     ((\<forall>y \<in> set xs. Name y = Name x \<longrightarrow> ShaderStages x AND ShaderStages y = 0)
      \<and> same_names_disjoint xs)"

text \<open>
  Two resources named \<open>X\<close> with another resource between them, in a combined-mode
  descriptor without samplers.
\<close>

definition same_name_resources :: "SHADER_TYPE \<Rightarrow> SHADER_TYPE \<Rightarrow> PipelineResourceDesc list" where
  "same_name_resources s1 s2 =
     [resource ''X'' s1 SHADER_RESOURCE_TYPE_CONSTANT_BUFFER SHADER_RESOURCE_VARIABLE_TYPE_STATIC,
      resource ''B'' 1 SHADER_RESOURCE_TYPE_BUFFER_SRV SHADER_RESOURCE_VARIABLE_TYPE_STATIC,
      resource ''X'' s2 SHADER_RESOURCE_TYPE_TEXTURE_SRV SHADER_RESOURCE_VARIABLE_TYPE_MUTABLE]"

definition same_name_desc :: "SHADER_TYPE \<Rightarrow> SHADER_TYPE \<Rightarrow> nat PipelineResourceSignatureDesc" where
  "same_name_desc s1 s2 = signature (same_name_resources s1 s2) True (Some ''_sampler'')"

section \<open>Properties of the comparator and the hasher\<close>

lemma hash_resources_compatible:
  "resources_compatible n xs ys = Some True \<Longrightarrow>
   hash_resources H n ys h = hash_resources H n xs h \<and> hash_resources H n xs h \<noteq> None"
proof (induction n xs ys arbitrary: h rule: resources_compatible.induct)
  case (2 n x xs y ys)
  then show ?case
    by (simp add: PipelineResourcesCompatible_def split: if_splits)
qed simp_all

lemma hash_samplers_compatible:
  "samplers_compatible n xs ys = Some True \<Longrightarrow>
   hash_samplers H n ys h = hash_samplers H n xs h \<and> hash_samplers H n xs h \<noteq> None"
proof (induction n xs ys arbitrary: h rule: samplers_compatible.induct)
  case (2 n x xs y ys)
  then show ?case
    by (simp split: if_splits)
qed simp_all

text \<open>
  C1: whenever the comparator returns true for two signature descriptors, the hasher
  returns the same value for both (and it does return one: every read it makes is
  one the comparator made).
\<close>

theorem compatible_signatures_hash_equal:
  assumes "PipelineResourceSignaturesCompatible a b = Some True"
  shows "\<exists>h. CalculatePipelineResourceSignatureDescHash H a = Some h
            \<and> CalculatePipelineResourceSignatureDescHash H b = Some h"
proof -
  from assms have bi: "BindingIndex a = BindingIndex b"
    and nr: "NumResources a = NumResources b"
    by (auto simp: PipelineResourceSignaturesCompatible_def split: if_splits)
  from assms nr bi have rc: "resources_compatible (unat (NumResources a))
      (elems (Resources a)) (elems (Resources b)) = Some True"
    by (auto simp: PipelineResourceSignaturesCompatible_def
             split: if_splits option.splits bool.splits)
  from assms nr bi rc have ni: "NumImmutableSamplers a = NumImmutableSamplers b"
    by (auto simp: PipelineResourceSignaturesCompatible_def split: if_splits)
  from assms nr bi rc ni have sc: "samplers_compatible (unat (NumImmutableSamplers a))
      (elems (ImmutableSamplers a)) (elems (ImmutableSamplers b)) = Some True"
    by (auto simp: PipelineResourceSignaturesCompatible_def split: if_splits)
  show ?thesis
  proof (cases "NumResources a = 0 \<and> NumImmutableSamplers a = 0")
    case True
    with nr ni show ?thesis
      by (simp add: CalculatePipelineResourceSignatureDescHash_def)
  next
    case False
    let ?seed = "ComputeHash H (NumResources a) (NumImmutableSamplers a) (BindingIndex a)"
    from hash_resources_compatible [OF rc, of H ?seed]
    obtain h1 where h1:
      "hash_resources H (unat (NumResources a)) (elems (Resources a)) ?seed = Some h1"
      "hash_resources H (unat (NumResources a)) (elems (Resources b)) ?seed = Some h1"
      by auto
    from hash_samplers_compatible [OF sc, of H h1]
    obtain h2 where h2:
      "hash_samplers H (unat (NumImmutableSamplers a)) (elems (ImmutableSamplers a)) h1 = Some h2"
      "hash_samplers H (unat (NumImmutableSamplers a)) (elems (ImmutableSamplers b)) h1 = Some h2"
      by auto
    from False nr ni have nz: "\<not> (NumResources b = 0 \<and> NumImmutableSamplers b = 0)"
      by simp
    have "CalculatePipelineResourceSignatureDescHash H a = Some h2"
      unfolding CalculatePipelineResourceSignatureDescHash_def if_not_P [OF False]
      by (simp add: h1 h2)
    moreover have "CalculatePipelineResourceSignatureDescHash H b = Some h2"
      unfolding CalculatePipelineResourceSignatureDescHash_def if_not_P [OF nz]
      by (simp add: h1 h2 nr [symmetric] ni [symmetric] bi [symmetric])
    ultimately show ?thesis by simp
  qed
qed

theorem compatible_signatures_hash_equal_witness:
  "PipelineResourceSignaturesCompatible (named_desc ''g_Tex'' ''g_Sam'')
       (named_desc ''g_Other'' ''g_Tex'') = Some True
   \<and> (\<exists>h. CalculatePipelineResourceSignatureDescHash example_hash
              (named_desc ''g_Tex'' ''g_Sam'') = Some h
          \<and> CalculatePipelineResourceSignatureDescHash example_hash
              (named_desc ''g_Other'' ''g_Tex'') = Some h)"
proof -
  have c: "PipelineResourceSignaturesCompatible (named_desc ''g_Tex'' ''g_Sam'')
       (named_desc ''g_Other'' ''g_Tex'') = Some True"
    by (simp add: PipelineResourceSignaturesCompatible_def named_desc_def resource_def
          elems_def PipelineResourcesCompatible_def)
  from c compatible_signatures_hash_equal [OF c, of example_hash] show ?thesis
    by simp
qed

text \<open>
  C9: a descriptor with zero resources and zero immutable samplers hashes to 0,
  whatever its other fields (the binding index among them) hold.
\<close>

theorem empty_signature_hash:
  assumes "NumResources D = 0" and "NumImmutableSamplers D = 0"
  shows "CalculatePipelineResourceSignatureDescHash H D = Some 0"
  using assms by (simp add: CalculatePipelineResourceSignatureDescHash_def)

theorem empty_signature_hash_witness:
  "NumResources empty_desc = 0 \<and> NumImmutableSamplers empty_desc = 0
   \<and> BindingIndex empty_desc = 3
   \<and> CalculatePipelineResourceSignatureDescHash example_hash empty_desc = Some 0"
proof -
  have h: "NumResources empty_desc = 0" "NumImmutableSamplers empty_desc = 0"
    by (simp_all add: empty_desc_def)
  from h empty_signature_hash [OF h, of example_hash] show ?thesis
    by (simp add: empty_desc_def)
qed

section \<open>Fail-fast ordering\<close>

text \<open>
  C7: a descriptor whose \<open>BindingIndex\<close> is at or beyond the maximum number of
  signature slots is rejected with the binding-index error, of kind \<open>LimitExceeded\<close>,
  whatever else the descriptor holds: the check comes before every other one.
\<close>

theorem binding_index_checked_first:
  assumes "MAX_RESOURCE_SIGNATURES lim \<le> unat (BindingIndex D)"
  shows "ValidatePipelineResourceSignatureDesc lim D supported = Inl (Thrown BindingIndexExceedsMax)
         \<and> error_kind BindingIndexExceedsMax = LimitExceeded"
  using assms by (simp add: ValidatePipelineResourceSignatureDesc_def header_checks_def)

theorem binding_index_checked_first_witness:
  "MAX_RESOURCE_SIGNATURES example_limits \<le> unat (BindingIndex bad_index_desc)
   \<and> NumResources bad_index_desc \<noteq> 0 \<and> Resources bad_index_desc = None
   \<and> ValidatePipelineResourceSignatureDesc example_limits bad_index_desc True
       = Inl (Thrown BindingIndexExceedsMax)
   \<and> error_kind BindingIndexExceedsMax = LimitExceeded"
proof -
  have h: "MAX_RESOURCE_SIGNATURES example_limits \<le> unat (BindingIndex bad_index_desc)"
    by (simp add: example_limits_def bad_index_desc_def)
  from h binding_index_checked_first [OF h, of True] show ?thesis
    by (simp add: bad_index_desc_def)
qed

section \<open>Null arrays\<close>

text \<open>
  C10: a descriptor whose resource count is not zero while its resources pointer is
  null is rejected, and so is one whose immutable-sampler count is not zero while
  that pointer is null. The error is fixed by the counts, the binding index and the
  two pointers alone: no element of either array is looked at.
\<close>

theorem null_arrays_rejected_before_scan:
  assumes "(NumResources D \<noteq> 0 \<and> Resources D = None)
           \<or> (NumImmutableSamplers D \<noteq> 0 \<and> ImmutableSamplers D = None)"
  shows "ValidatePipelineResourceSignatureDesc lim D supported =
           Inl (Thrown
             (if MAX_RESOURCE_SIGNATURES lim \<le> unat (BindingIndex D) then BindingIndexExceedsMax
              else if MAX_RESOURCES_IN_SIGNATURE lim < unat (NumResources D)
                then NumResourcesExceedsMax
              else if NumResources D \<noteq> 0 \<and> Resources D = None then ResourcesIsNull
              else ImmutableSamplersIsNull))"
  using assms by (auto simp add: ValidatePipelineResourceSignatureDesc_def header_checks_def)

theorem null_arrays_rejected_before_scan_witness:
  "NumResources null_resources_desc \<noteq> 0 \<and> Resources null_resources_desc = None
   \<and> ValidatePipelineResourceSignatureDesc example_limits null_resources_desc True
       = Inl (Thrown ResourcesIsNull)
   \<and> NumImmutableSamplers null_samplers_desc \<noteq> 0 \<and> ImmutableSamplers null_samplers_desc = None
   \<and> ValidatePipelineResourceSignatureDesc example_limits null_samplers_desc True
       = Inl (Thrown ImmutableSamplersIsNull)"
proof -
  have r: "(NumResources null_resources_desc \<noteq> 0 \<and> Resources null_resources_desc = None)
           \<or> (NumImmutableSamplers null_resources_desc \<noteq> 0
               \<and> ImmutableSamplers null_resources_desc = None)"
    by (simp add: null_resources_desc_def)
  have s: "(NumResources null_samplers_desc \<noteq> 0 \<and> Resources null_samplers_desc = None)
           \<or> (NumImmutableSamplers null_samplers_desc \<noteq> 0
               \<and> ImmutableSamplers null_samplers_desc = None)"
    by (simp add: null_samplers_desc_def)
  from null_arrays_rejected_before_scan [OF r, of example_limits True]
       null_arrays_rejected_before_scan [OF s, of example_limits True]
  show ?thesis
    by (simp add: null_resources_desc_def null_samplers_desc_def example_limits_def)
qed

section \<open>The immutable-sampler locator\<close>

lemma find_immutable_sampler_hit:
  assumes "i < n" and "n \<le> length xs"
    and "\<forall>j\<le>i. SamplerOrTextureName (xs ! j) \<noteq> None"
    and "ImtblShaderStages (xs ! i) AND stages \<noteq> 0"
    and "SamplerOrTextureName (xs ! i) = Some r
         \<or> (\<exists>sfx. suffix = Some sfx \<and> SamplerOrTextureName (xs ! i) = Some (r @ sfx))"
    and "\<forall>j<i. \<not> (ImtblShaderStages (xs ! j) AND stages \<noteq> 0
              \<and> (SamplerOrTextureName (xs ! j) = Some r
                  \<or> (\<exists>sfx. suffix = Some sfx \<and> SamplerOrTextureName (xs ! j) = Some (r @ sfx))))"
  shows "find_immutable_sampler invalid stages (Some r) suffix s n xs = Some (word_of_nat (s + i))"
  using assms
proof (induction i arbitrary: s n xs)
  case 0
  then obtain x xs' n' where "xs = x # xs'" "n = Suc n'"
    by (cases xs; cases n) auto
  with 0 show ?case
    by (auto simp: StreqSuff_def split: option.splits)
next
  case (Suc i)
  then obtain x xs' n' where xs: "xs = x # xs'" "n = Suc n'"
    by (cases xs; cases n) auto
  from Suc.prems xs have nm: "SamplerOrTextureName x \<noteq> None"
    by (metis le0 nth_Cons_0)
  from Suc.prems(6) xs have nomatch: "\<not> (ImtblShaderStages x AND stages \<noteq> 0
              \<and> (SamplerOrTextureName x = Some r
                  \<or> (\<exists>sfx. suffix = Some sfx \<and> SamplerOrTextureName x = Some (r @ sfx))))"
    by (metis nth_Cons_0 zero_less_Suc)
  have "find_immutable_sampler invalid stages (Some r) suffix (Suc s) n' xs' = Some (word_of_nat (Suc s + i))"
  proof (rule Suc.IH)
    show "i < n'" using Suc.prems xs by simp
    show "n' \<le> length xs'" using Suc.prems xs by simp
    show "\<forall>j\<le>i. SamplerOrTextureName (xs' ! j) \<noteq> None"
      using Suc.prems(3) xs by (metis Suc_le_mono nth_Cons_Suc)
    show "ImtblShaderStages (xs' ! i) AND stages \<noteq> 0" using Suc.prems xs by simp
    show "SamplerOrTextureName (xs' ! i) = Some r
         \<or> (\<exists>sfx. suffix = Some sfx \<and> SamplerOrTextureName (xs' ! i) = Some (r @ sfx))"
      using Suc.prems xs by simp
    show "\<forall>j<i. \<not> (ImtblShaderStages (xs' ! j) AND stages \<noteq> 0
              \<and> (SamplerOrTextureName (xs' ! j) = Some r
                  \<or> (\<exists>sfx. suffix = Some sfx \<and> SamplerOrTextureName (xs' ! j) = Some (r @ sfx))))"
      using Suc.prems(6) xs by (metis Suc_less_eq nth_Cons_Suc)
  qed
  with nm nomatch xs show ?case
    by (auto simp: StreqSuff_def split: option.splits)
qed

lemma find_immutable_sampler_miss:
  assumes "n \<le> length xs"
    and "\<forall>j<n. SamplerOrTextureName (xs ! j) \<noteq> None"
    and "\<forall>j<n. \<not> (ImtblShaderStages (xs ! j) AND stages \<noteq> 0
              \<and> (SamplerOrTextureName (xs ! j) = Some r
                  \<or> (\<exists>sfx. suffix = Some sfx \<and> SamplerOrTextureName (xs ! j) = Some (r @ sfx))))"
  shows "find_immutable_sampler invalid stages (Some r) suffix s n xs = Some invalid"
  using assms
proof (induction n arbitrary: s xs)
  case 0
  then show ?case by simp
next
  case (Suc n)
  then obtain x xs' where xs: "xs = x # xs'"
    by (cases xs) auto
  from Suc.prems xs have nm: "SamplerOrTextureName x \<noteq> None"
    by (metis nth_Cons_0 zero_less_Suc)
  from Suc.prems(3) xs have nomatch: "\<not> (ImtblShaderStages x AND stages \<noteq> 0
              \<and> (SamplerOrTextureName x = Some r
                  \<or> (\<exists>sfx. suffix = Some sfx \<and> SamplerOrTextureName x = Some (r @ sfx))))"
    by (metis nth_Cons_0 zero_less_Suc)
  have "find_immutable_sampler invalid stages (Some r) suffix (Suc s) n xs' = Some invalid"
  proof (rule Suc.IH)
    show "n \<le> length xs'" using Suc.prems xs by simp
    show "\<forall>j<n. SamplerOrTextureName (xs' ! j) \<noteq> None"
      using Suc.prems(2) xs by (metis Suc_less_eq nth_Cons_Suc)
    show "\<forall>j<n. \<not> (ImtblShaderStages (xs' ! j) AND stages \<noteq> 0
              \<and> (SamplerOrTextureName (xs' ! j) = Some r
                  \<or> (\<exists>sfx. suffix = Some sfx \<and> SamplerOrTextureName (xs' ! j) = Some (r @ sfx))))"
      using Suc.prems(3) xs by (metis Suc_less_eq nth_Cons_Suc)
  qed
  with nm nomatch xs show ?case
    by (auto simp: StreqSuff_def split: option.splits)
qed


text \<open>
  C8: \<open>FindImmutableSampler\<close> goes through the array in index order and returns the
  lowest index whose entry has stages that intersect the requested ones and whose
  name is \<open>resourceName\<close>, or \<open>resourceName\<close> followed by the suffix when one is
  supplied; when no entry matches it returns the not-found sentinel.
\<close>

theorem find_immutable_sampler_first_match:
  assumes "unat N \<le> length xs"
    and "\<forall>j<unat N. SamplerOrTextureName (xs ! j) \<noteq> None"
  shows "(\<forall>i<unat N.
            ImtblShaderStages (xs ! i) AND stages \<noteq> 0
            \<and> (SamplerOrTextureName (xs ! i) = Some r
                \<or> (\<exists>sfx. suffix = Some sfx \<and> SamplerOrTextureName (xs ! i) = Some (r @ sfx)))
            \<and> (\<forall>j<i. \<not> (ImtblShaderStages (xs ! j) AND stages \<noteq> 0
                   \<and> (SamplerOrTextureName (xs ! j) = Some r
                       \<or> (\<exists>sfx. suffix = Some sfx
                             \<and> SamplerOrTextureName (xs ! j) = Some (r @ sfx)))))
            \<longrightarrow> FindImmutableSampler invalid (Some xs) N stages (Some r) suffix
                  = Some (word_of_nat i))
       \<and> ((\<forall>j<unat N. \<not> (ImtblShaderStages (xs ! j) AND stages \<noteq> 0
                   \<and> (SamplerOrTextureName (xs ! j) = Some r
                       \<or> (\<exists>sfx. suffix = Some sfx
                             \<and> SamplerOrTextureName (xs ! j) = Some (r @ sfx)))))
            \<longrightarrow> FindImmutableSampler invalid (Some xs) N stages (Some r) suffix = Some invalid)"
proof (intro conjI allI impI)
  fix i
  assume i: "i < unat N"
    and m: "ImtblShaderStages (xs ! i) AND stages \<noteq> 0
            \<and> (SamplerOrTextureName (xs ! i) = Some r
                \<or> (\<exists>sfx. suffix = Some sfx \<and> SamplerOrTextureName (xs ! i) = Some (r @ sfx)))
            \<and> (\<forall>j<i. \<not> (ImtblShaderStages (xs ! j) AND stages \<noteq> 0
                   \<and> (SamplerOrTextureName (xs ! j) = Some r
                       \<or> (\<exists>sfx. suffix = Some sfx
                             \<and> SamplerOrTextureName (xs ! j) = Some (r @ sfx)))))"
  from assms(2) i have nn: "\<forall>j\<le>i. SamplerOrTextureName (xs ! j) \<noteq> None"
    by simp
  from find_immutable_sampler_hit [OF i assms(1) nn, of stages r suffix invalid 0] m
  show "FindImmutableSampler invalid (Some xs) N stages (Some r) suffix = Some (word_of_nat i)"
    by (simp add: FindImmutableSampler_def elems_def)
next
  assume "\<forall>j<unat N. \<not> (ImtblShaderStages (xs ! j) AND stages \<noteq> 0
                   \<and> (SamplerOrTextureName (xs ! j) = Some r
                       \<or> (\<exists>sfx. suffix = Some sfx
                             \<and> SamplerOrTextureName (xs ! j) = Some (r @ sfx))))"
  from find_immutable_sampler_miss [OF assms(1) assms(2) this, of invalid 0]
  show "FindImmutableSampler invalid (Some xs) N stages (Some r) suffix = Some invalid"
    by (simp add: FindImmutableSampler_def elems_def)
qed

lemma nth_example_samplers:
  "example_samplers ! 0 = \<lparr> ImtblShaderStages = 1, SamplerOrTextureName = Some ''g_Tex'', Desc = 0 \<rparr>"
  "example_samplers ! Suc 0 = \<lparr> ImtblShaderStages = 2, SamplerOrTextureName = Some ''g_Other'', Desc = 1 \<rparr>"
  "example_samplers ! 2 = \<lparr> ImtblShaderStages = 6, SamplerOrTextureName = Some ''g_Tex_sampler'', Desc = 2 \<rparr>"
  "example_samplers ! 3 = \<lparr> ImtblShaderStages = 2, SamplerOrTextureName = Some ''g_Tex'', Desc = 3 \<rparr>"
  by (simp_all add: example_samplers_def numeral_3_eq_3)

theorem find_immutable_sampler_first_match_witness:
  "FindImmutableSampler 0xFFFFFFFF (Some example_samplers) 4 2 (Some ''g_Tex'') (Some ''_sampler'')
     = Some 2
   \<and> FindImmutableSampler 0xFFFFFFFF (Some example_samplers) 4 2 (Some ''g_Tex'') None
     = Some 3
   \<and> FindImmutableSampler 0xFFFFFFFF (Some example_samplers) 4 8 (Some ''g_Tex'') None
     = Some 0xFFFFFFFF"
proof -
  have len: "unat (4 :: 32 word) \<le> length example_samplers"
    by (simp add: example_samplers_def)
  have lt4: "j < 4 \<longleftrightarrow> j = 0 \<or> j = 1 \<or> j = 2 \<or> j = 3" for j :: nat
    by auto
  have lt3: "j < 3 \<longleftrightarrow> j = 0 \<or> j = 1 \<or> j = 2" for j :: nat
    by auto
  have lt2: "j < 2 \<longleftrightarrow> j = 0 \<or> j = 1" for j :: nat
    by auto
  have names: "\<forall>j<unat (4 :: 32 word). SamplerOrTextureName (example_samplers ! j) \<noteq> None"
    by (auto simp: lt4 nth_example_samplers)
  note fm = find_immutable_sampler_first_match [OF len names]
  have a: "FindImmutableSampler 0xFFFFFFFF (Some example_samplers) 4 2 (Some ''g_Tex'')
             (Some ''_sampler'') = Some (word_of_nat 2)"
    by (rule fm [THEN conjunct1, rule_format]) (auto simp: lt2 nth_example_samplers)
  have b: "FindImmutableSampler 0xFFFFFFFF (Some example_samplers) 4 2 (Some ''g_Tex'') None
             = Some (word_of_nat 3)"
    by (rule fm [THEN conjunct1, rule_format]) (auto simp: lt3 nth_example_samplers)
  have c: "FindImmutableSampler 0xFFFFFFFF (Some example_samplers) 4 8 (Some ''g_Tex'') None
             = Some 0xFFFFFFFF"
    by (rule fm [THEN conjunct2, rule_format]) (auto simp: lt4 nth_example_samplers)
  from a b c show ?thesis by simp
qed


section \<open>Evaluating the validator\<close>

lemmas validate_defs =
  ValidatePipelineResourceSignatureDesc_def header_checks_def combined_samplers_def
  validate_resource_def validate_immutable_sampler_def assign_sampler_def used_stages_def
  elems_def SHADER_TYPE_UNKNOWN_def

lemma for_each_numeral:
  "for_each body (numeral k) [] st = Inl Undefined"
  "for_each body (numeral k) (x # xs) st =
     (case body x st of Inl e \<Rightarrow> Inl e | Inr st' \<Rightarrow> for_each body (pred_numeral k) xs st')"
  by (simp_all add: numeral_eq_Suc)

section \<open>The pairing scenario\<close>

text \<open>
  C3, as the code has it: in combined mode, texture \<open>Tex\<close> with a sampler \<open>Tex_suffix\<close>
  of the same stages and variable type is accepted. A sampler whose stages are not
  empty and share no stage with the texture's (vertex only against fragment only) is
  not a candidate for the texture at all; it stays in the working set and the
  descriptor is rejected with the unassigned-sampler error, of kind
  \<open>UnassignedSampler\<close>.
\<close>

theorem combined_pairing_scenario:
  assumes "0 < MAX_RESOURCE_SIGNATURES lim" and "2 \<le> MAX_RESOURCES_IN_SIGNATURE lim"
    and "F \<noteq> 0"
  shows "ValidatePipelineResourceSignatureDesc lim (pairing_desc F F v) supported = Inr ()
       \<and> (S \<noteq> 0 \<and> S AND F = 0 \<longrightarrow>
            ValidatePipelineResourceSignatureDesc lim (pairing_desc F S v) supported
              = Inl (Thrown SamplerNotAssigned)
            \<and> error_kind SamplerNotAssigned = UnassignedSampler)"
  using assms
  by (simp add: validate_defs pairing_desc_def signature_def resource_def for_each_numeral)

theorem combined_pairing_scenario_witness:
  "0 < MAX_RESOURCE_SIGNATURES example_limits \<and> 2 \<le> MAX_RESOURCES_IN_SIGNATURE example_limits
   \<and> SHADER_TYPE_PIXEL \<noteq> 0 \<and> SHADER_TYPE_VERTEX \<noteq> 0
   \<and> SHADER_TYPE_VERTEX AND SHADER_TYPE_PIXEL = 0
   \<and> ValidatePipelineResourceSignatureDesc example_limits
        (pairing_desc SHADER_TYPE_PIXEL SHADER_TYPE_PIXEL SHADER_RESOURCE_VARIABLE_TYPE_STATIC)
        True = Inr ()
   \<and> ValidatePipelineResourceSignatureDesc example_limits
        (pairing_desc SHADER_TYPE_PIXEL SHADER_TYPE_VERTEX SHADER_RESOURCE_VARIABLE_TYPE_STATIC)
        True = Inl (Thrown SamplerNotAssigned)"
proof -
  have h: "0 < MAX_RESOURCE_SIGNATURES example_limits"
    "2 \<le> MAX_RESOURCES_IN_SIGNATURE example_limits" "SHADER_TYPE_PIXEL \<noteq> 0"
    by (simp_all add: example_limits_def SHADER_TYPE_PIXEL_def)
  have v: "SHADER_TYPE_VERTEX \<noteq> 0" "SHADER_TYPE_VERTEX AND SHADER_TYPE_PIXEL = 0"
    by (simp_all add: SHADER_TYPE_PIXEL_def SHADER_TYPE_VERTEX_def)
  from h v combined_pairing_scenario [OF h, of SHADER_RESOURCE_VARIABLE_TYPE_STATIC True
      SHADER_TYPE_VERTEX]
  show ?thesis by simp
qed

text \<open>
  C3 as stated fails: with the sampler at the vertex stage only and the texture at
  the fragment stage only, the validator does not report a combined-sampler mismatch;
  it reports the sampler as unassigned.
\<close>

theorem combined_pairing_vertex_sampler_counterexample:
  "ValidatePipelineResourceSignatureDesc example_limits
     (pairing_desc SHADER_TYPE_PIXEL SHADER_TYPE_VERTEX SHADER_RESOURCE_VARIABLE_TYPE_STATIC) True
   = Inl (Thrown SamplerNotAssigned)
   \<and> error_kind SamplerNotAssigned \<noteq> CombinedSamplerMismatch"
  by (simp add: validate_defs pairing_desc_def signature_def resource_def for_each_numeral
        example_limits_def SHADER_TYPE_PIXEL_def SHADER_TYPE_VERTEX_def)



section \<open>Flag legality\<close>

lemma for_each_split:
  "length pre < n \<Longrightarrow>
   for_each body n (pre @ x # post) st =
     (case for_each body (length pre) pre st of
        Inl e \<Rightarrow> Inl e
      | Inr st' \<Rightarrow>
          (case body x st' of
             Inl e \<Rightarrow> Inl e
           | Inr st'' \<Rightarrow> for_each body (n - Suc (length pre)) post st''))"
proof (induction pre arbitrary: n st)
  case Nil
  then obtain k where "n = Suc k" by (cases n) auto
  then show ?case by (simp split: sum.splits)
next
  case (Cons a pre)
  then obtain k where k: "n = Suc k" by (cases n) auto
  with Cons.prems have "length pre < k" by simp
  from Cons.IH [OF this] k show ?case
    by (simp split: sum.splits)
qed

lemma flag_not_allowed:
  fixes f r a :: "'a::len word"
  assumes "f AND r \<noteq> 0" and "r AND a = 0"
  shows "f AND NOT a \<noteq> 0"
proof
  assume z: "f AND NOT a = 0"
  have "f AND r = (f AND NOT a) AND r OR f AND (r AND a)"
    by (rule bit_eqI) (auto simp: bit_and_iff bit_or_iff bit_not_iff)
  with z assms(2) have "f AND r = 0" by simp
  with assms(1) show False by simp
qed

lemma flags_all_allowed:
  fixes f r a :: "'a::len word"
  assumes "r AND NOT a = 0" and "(f AND NOT r) AND NOT a = 0"
  shows "f AND NOT a = 0"
proof -
  have "f AND NOT a = f AND (r AND NOT a) OR (f AND NOT r) AND NOT a"
    by (rule bit_eqI) (auto simp: bit_and_iff bit_or_iff bit_not_iff)
  with assms show ?thesis by simp
qed

lemma validate_resource_capability:
  assumes "validate_resource lim True x st = Inr st'"
  shows "validate_resource lim False x st =
           (if Flags x AND PIPELINE_RESOURCE_FLAG_RUNTIME_ARRAY lim \<noteq> 0
            then Inl (Thrown RuntimeArrayNotSupported) else Inr st')"
  using assms
  by (cases "Name x") (auto simp: validate_resource_def split: if_splits)

lemma scan_without_capability:
  assumes "for_each (validate_resource lim True) n xs st = Inr st'"
  shows "for_each (validate_resource lim False) n xs st = Inr st'
         \<or> for_each (validate_resource lim False) n xs st = Inl (Thrown RuntimeArrayNotSupported)"
  using assms
proof (induction n arbitrary: xs st)
  case 0
  then show ?case by simp
next
  case (Suc n)
  then obtain x xs' where xs: "xs = x # xs'" by (cases xs) auto
  with Suc.prems obtain st1 where
    step: "validate_resource lim True x st = Inr st1"
    and rest: "for_each (validate_resource lim True) n xs' st1 = Inr st'"
    by (auto split: sum.splits)
  show ?case
  proof (cases "Flags x AND PIPELINE_RESOURCE_FLAG_RUNTIME_ARRAY lim \<noteq> 0")
    case True
    with validate_resource_capability [OF step] xs show ?thesis by simp
  next
    case False
    with validate_resource_capability [OF step]
    have "validate_resource lim False x st = Inr st1" by simp
    with Suc.IH [OF rest] xs show ?thesis by auto
  qed
qed

text \<open>
  C5: take a resource that carries the runtime-array flag and is reached by the scan
  when the capability is on (the resources before it pass, and so do its own checks
  that come before the flags). If its kind does not allow the flag, the descriptor is
  rejected with an error of kind \<open>InvalidFlagsForResourceType\<close> with the capability
  and without it. If its kind allows the flag, the descriptor is rejected, with the
  runtime-array error, when the capability is off; with the capability on, and no
  other flag of the resource illegal, the resource passes.
\<close>

theorem runtime_array_flag_legality:
  assumes "header_checks lim D = Inr ()"
    and "Resources D = Some (pre @ Res # post)" and "length pre < unat (NumResources D)"
    and "for_each (validate_resource lim True) (length pre) pre (Map.empty, []) = Inr st"
    and "Name Res = Some n" and "n \<noteq> []"
    and "ShaderStages Res \<noteq> SHADER_TYPE_UNKNOWN" and "ArraySize Res \<noteq> 0"
    and "used_stages (fst st) n AND ShaderStages Res = 0"
    and "Flags Res AND PIPELINE_RESOURCE_FLAG_RUNTIME_ARRAY lim \<noteq> 0"
  shows "(PIPELINE_RESOURCE_FLAG_RUNTIME_ARRAY lim
            AND GetValidPipelineResourceFlags lim (ResourceType Res) = 0 \<longrightarrow>
          ValidatePipelineResourceSignatureDesc lim D True = Inl (Thrown IncorrectResourceFlags)
          \<and> ValidatePipelineResourceSignatureDesc lim D False
              = Inl (Thrown RuntimeArrayNotSupported)
          \<and> error_kind IncorrectResourceFlags = InvalidFlagsForResourceType
          \<and> error_kind RuntimeArrayNotSupported = InvalidFlagsForResourceType)
       \<and> (PIPELINE_RESOURCE_FLAG_RUNTIME_ARRAY lim
            AND NOT (GetValidPipelineResourceFlags lim (ResourceType Res)) = 0 \<longrightarrow>
          ValidatePipelineResourceSignatureDesc lim D False
            = Inl (Thrown RuntimeArrayNotSupported)
          \<and> ((Flags Res AND NOT (PIPELINE_RESOURCE_FLAG_RUNTIME_ARRAY lim))
                 AND NOT (GetValidPipelineResourceFlags lim (ResourceType Res)) = 0 \<longrightarrow>
               validate_resource lim True Res st
                 = Inr ((fst st)(n \<mapsto> used_stages (fst st) n OR ShaderStages Res),
                        snd st @ [(n, Res)])))"
proof -
  let ?RA = "PIPELINE_RESOURCE_FLAG_RUNTIME_ARRAY lim"
  let ?A = "GetValidPipelineResourceFlags lim (ResourceType Res)"
  let ?N = "unat (NumResources D)"
  have split: "for_each (validate_resource lim c) ?N (elems (Resources D)) (Map.empty, []) =
      (case for_each (validate_resource lim c) (length pre) pre (Map.empty, []) of
         Inl e \<Rightarrow> Inl e
       | Inr st' \<Rightarrow>
           (case validate_resource lim c Res st' of
              Inl e \<Rightarrow> Inl e
            | Inr st'' \<Rightarrow>
                for_each (validate_resource lim c) (?N - Suc (length pre)) post st''))" for c
    using assms(2,3) by (simp add: elems_def for_each_split)
  have ns: "validate_resource lim False Res st = Inl (Thrown RuntimeArrayNotSupported)"
    using assms(5-10) by (simp add: validate_resource_def)
  have off: "ValidatePipelineResourceSignatureDesc lim D False
              = Inl (Thrown RuntimeArrayNotSupported)"
  proof -
    from scan_without_capability [OF assms(4)]
    have "for_each (validate_resource lim False) ?N (elems (Resources D)) (Map.empty, [])
            = Inl (Thrown RuntimeArrayNotSupported)"
      unfolding split [of False] using ns by auto
    with assms(1) show ?thesis
      by (simp add: ValidatePipelineResourceSignatureDesc_def)
  qed
  have on: "ValidatePipelineResourceSignatureDesc lim D True = Inl (Thrown IncorrectResourceFlags)"
    if f: "?RA AND ?A = 0"
  proof -
    have "validate_resource lim True Res st = Inl (Thrown IncorrectResourceFlags)"
      using assms(5-9) flag_not_allowed [OF assms(10) f]
      by (simp add: validate_resource_def)
    then have "for_each (validate_resource lim True) ?N (elems (Resources D)) (Map.empty, [])
            = Inl (Thrown IncorrectResourceFlags)"
      unfolding split [of True] using assms(4) by simp
    with assms(1) show ?thesis
      by (simp add: ValidatePipelineResourceSignatureDesc_def)
  qed
  have allow: "validate_resource lim True Res st
               = Inr ((fst st)(n \<mapsto> used_stages (fst st) n OR ShaderStages Res),
                      snd st @ [(n, Res)])"
    if "?RA AND NOT ?A = 0" "(Flags Res AND NOT ?RA) AND NOT ?A = 0"
    using assms(5-9) flags_all_allowed [OF that]
    by (simp add: validate_resource_def)
  from off on allow show ?thesis by simp
qed

theorem runtime_array_flag_legality_witness:
  "ValidatePipelineResourceSignatureDesc example_limits
     (flagged_desc SHADER_RESOURCE_TYPE_SAMPLER) True = Inl (Thrown IncorrectResourceFlags)
   \<and> ValidatePipelineResourceSignatureDesc example_limits
       (flagged_desc SHADER_RESOURCE_TYPE_SAMPLER) False = Inl (Thrown RuntimeArrayNotSupported)
   \<and> ValidatePipelineResourceSignatureDesc example_limits
        (flagged_desc SHADER_RESOURCE_TYPE_TEXTURE_SRV) False
        = Inl (Thrown RuntimeArrayNotSupported)
   \<and> validate_resource example_limits True (flagged_resource SHADER_RESOURCE_TYPE_TEXTURE_SRV)
        ([''g_CB'' \<mapsto> 1],
         [(''g_CB'', resource ''g_CB'' 1 SHADER_RESOURCE_TYPE_CONSTANT_BUFFER
                      SHADER_RESOURCE_VARIABLE_TYPE_STATIC)])
        = Inr ([''g_CB'' \<mapsto> 1, ''g_Arr'' \<mapsto> 2],
               [(''g_CB'', resource ''g_CB'' 1 SHADER_RESOURCE_TYPE_CONSTANT_BUFFER
                            SHADER_RESOURCE_VARIABLE_TYPE_STATIC),
                (''g_Arr'', flagged_resource SHADER_RESOURCE_TYPE_TEXTURE_SRV)])
   \<and> ValidatePipelineResourceSignatureDesc example_limits
        (flagged_desc SHADER_RESOURCE_TYPE_TEXTURE_SRV) True = Inr ()"
proof -
  let ?cb = "resource ''g_CB'' 1 SHADER_RESOURCE_TYPE_CONSTANT_BUFFER
               SHADER_RESOURCE_VARIABLE_TYPE_STATIC"
  let ?st = "([''g_CB'' \<mapsto> 1 :: SHADER_TYPE], [(''g_CB'', ?cb)])"
  have pre: "for_each (validate_resource example_limits True) (length [?cb]) [?cb]
               (Map.empty, []) = Inr ?st"
    by (simp add: validate_resource_def used_stages_def resource_def example_limits_def
          SHADER_TYPE_UNKNOWN_def)
  have hdr: "header_checks example_limits (flagged_desc t) = Inr ()" for t
    by (simp add: header_checks_def flagged_desc_def signature_def example_limits_def)
  have res: "Resources (flagged_desc t) = Some ([?cb] @ flagged_resource t # [])" for t
    by (simp add: flagged_desc_def signature_def)
  have len: "length [?cb] < unat (NumResources (flagged_desc t))" for t
    by (simp add: flagged_desc_def signature_def)
  have rest: "Name (flagged_resource t) = Some ''g_Arr''" "''g_Arr'' \<noteq> []"
    "ShaderStages (flagged_resource t) \<noteq> SHADER_TYPE_UNKNOWN"
    "ArraySize (flagged_resource t) \<noteq> 0"
    "used_stages (fst ?st) ''g_Arr'' AND ShaderStages (flagged_resource t) = 0"
    "Flags (flagged_resource t) AND PIPELINE_RESOURCE_FLAG_RUNTIME_ARRAY example_limits \<noteq> 0"
    for t
    by (simp_all add: flagged_resource_def SHADER_TYPE_UNKNOWN_def used_stages_def
          example_limits_def)
  note sam = runtime_array_flag_legality [OF hdr res len pre rest,
      of SHADER_RESOURCE_TYPE_SAMPLER]
  note tex = runtime_array_flag_legality [OF hdr res len pre rest,
      of SHADER_RESOURCE_TYPE_TEXTURE_SRV]
  have a: "ValidatePipelineResourceSignatureDesc example_limits
             (flagged_desc SHADER_RESOURCE_TYPE_SAMPLER) True = Inl (Thrown IncorrectResourceFlags)
           \<and> ValidatePipelineResourceSignatureDesc example_limits
               (flagged_desc SHADER_RESOURCE_TYPE_SAMPLER) False
               = Inl (Thrown RuntimeArrayNotSupported)"
    using sam by (simp add: example_limits_def flagged_resource_def)
  have b: "ValidatePipelineResourceSignatureDesc example_limits
        (flagged_desc SHADER_RESOURCE_TYPE_TEXTURE_SRV) False
        = Inl (Thrown RuntimeArrayNotSupported)"
    using tex by (simp add: example_limits_def flagged_resource_def)
  have c: "validate_resource example_limits True (flagged_resource SHADER_RESOURCE_TYPE_TEXTURE_SRV)
        ?st = Inr ([''g_CB'' \<mapsto> 1, ''g_Arr'' \<mapsto> 2],
               [(''g_CB'', ?cb), (''g_Arr'', flagged_resource SHADER_RESOURCE_TYPE_TEXTURE_SRV)])"
    using tex by (simp add: example_limits_def flagged_resource_def used_stages_def)
  have d: "ValidatePipelineResourceSignatureDesc example_limits
        (flagged_desc SHADER_RESOURCE_TYPE_TEXTURE_SRV) True = Inr ()"
    by (simp add: validate_defs flagged_desc_def flagged_resource_def signature_def
          resource_def example_limits_def for_each_numeral)
  from a b c d show ?thesis by simp
qed

section \<open>The two containers of the first loop\<close>

text \<open>Three facts on bit masks, read as sets of stages.\<close>

lemma and_subset_disjoint:
  fixes r u s :: "'a::len word"
  assumes "r AND u = r" and "u AND s = 0"
  shows "r AND s = 0"
proof -
  have "r AND s = r AND (u AND s)"
    using assms(1) by (metis and.assoc)
  with assms(2) show ?thesis by simp
qed

lemma and_subset_or:
  fixes r u s :: "'a::len word"
  assumes "r AND u = r"
  shows "r AND (u OR s) = r"
proof -
  have "r AND (u OR s) = (r AND u) OR (r AND s)"
    by (rule bit_eqI) (auto simp: bit_and_iff bit_or_iff)
  also have "\<dots> = r OR (r AND s)" using assms by simp
  also have "\<dots> = r"
    by (rule bit_eqI) (auto simp: bit_and_iff bit_or_iff)
  finally show ?thesis .
qed

lemma and_or_self:
  fixes u s :: "'a::len word"
  shows "s AND (u OR s) = s"
  by (rule bit_eqI) (auto simp: bit_and_iff bit_or_iff)

lemma validate_resource_Inr:
  assumes "validate_resource lim supported Res (m, bn) = Inr (m', bn')"
  shows "\<exists>n. Name Res = Some n \<and> n \<noteq> [] \<and> ShaderStages Res \<noteq> 0
           \<and> used_stages m n AND ShaderStages Res = 0
           \<and> m' = m(n \<mapsto> used_stages m n OR ShaderStages Res)
           \<and> bn' = bn @ [(n, Res)]"
  using assms
  by (cases "Name Res")
     (auto simp: validate_resource_def SHADER_TYPE_UNKNOWN_def split: if_splits)

lemma validate_resource_inv:
  assumes inv: "byname_inv m bn"
    and ok: "validate_resource lim supported Res (m, bn) = Inr (m', bn')"
  shows "byname_inv m' bn'"
proof -
  from validate_resource_Inr [OF ok] obtain n where
    n: "Name Res = Some n" "ShaderStages Res \<noteq> 0"
       "used_stages m n AND ShaderStages Res = 0"
       "m' = m(n \<mapsto> used_stages m n OR ShaderStages Res)" "bn' = bn @ [(n, Res)]"
    by blast
  let ?s = "ShaderStages Res"
  have old: "Name r = Some k \<and> ShaderStages r \<noteq> 0
             \<and> ShaderStages r AND used_stages m k = ShaderStages r"
    if "(k, r) \<in> set bn" for k r
    using inv that by (auto simp: byname_inv_def)
  have disj_new: "ShaderStages r AND ?s = 0" if "(n, r) \<in> set bn" for r
    using old [OF that] n(3) and_subset_disjoint by blast
  have fresh: "(n, Res) \<notin> set bn"
  proof
    assume "(n, Res) \<in> set bn"
    from disj_new [OF this] n(2) show False by simp
  qed
  have used': "used_stages m' k = (if k = n then used_stages m n OR ?s else used_stages m k)" for k
    by (simp add: n(4) used_stages_def)
  have d: "distinct bn'"
    using inv fresh by (simp add: n(5) byname_inv_def)
  have e: "\<forall>(k, r) \<in> set bn'. Name r = Some k \<and> ShaderStages r \<noteq> 0
            \<and> ShaderStages r AND used_stages m' k = ShaderStages r"
  proof (clarify)
    fix k r assume kr: "(k, r) \<in> set bn'"
    show "Name r = Some k \<and> ShaderStages r \<noteq> 0
            \<and> ShaderStages r AND used_stages m' k = ShaderStages r"
    proof (cases "(k, r) = (n, Res)")
      case True
      with n(1,2) show ?thesis by (simp add: used' and_or_self)
    next
      case False
      with kr have "(k, r) \<in> set bn" by (auto simp: n(5))
      from old [OF this] show ?thesis by (auto simp: used' intro: and_subset_or)
    qed
  qed
  have p: "\<forall>(k, r) \<in> set bn'. \<forall>(k', r') \<in> set bn'.
            k = k' \<and> r \<noteq> r' \<longrightarrow> ShaderStages r AND ShaderStages r' = 0"
  proof (clarify)
    fix k r r' assume a: "(k, r) \<in> set bn'" "(k, r') \<in> set bn'" "r \<noteq> r'"
    consider "(k, r) \<in> set bn" "(k, r') \<in> set bn"
      | "(k, r) = (n, Res)" "(k, r') \<in> set bn"
      | "(k, r) \<in> set bn" "(k, r') = (n, Res)"
      using a by (auto simp: n(5))
    then show "ShaderStages r AND ShaderStages r' = 0"
    proof cases
      case 1
      with inv a(3) show ?thesis by (auto simp: byname_inv_def)
    next
      case 2
      then have "ShaderStages r' AND ?s = 0" using disj_new by simp
      with 2 show ?thesis by (simp add: and.commute)
    next
      case 3
      then show ?thesis using disj_new by simp
    qed
  qed
  from d e p show ?thesis by (simp add: byname_inv_def)
qed

lemma scan_resources_inv:
  assumes "byname_inv m bn"
    and "for_each (validate_resource lim supported) n xs (m, bn) = Inr (m', bn')"
  shows "byname_inv m' bn' \<and> n \<le> length xs \<and> map snd bn' = map snd bn @ take n xs"
  using assms
proof (induction n arbitrary: xs m bn)
  case 0
  then show ?case by simp
next
  case (Suc n)
  then obtain x xs' where xs: "xs = x # xs'" by (cases xs) auto
  from Suc.prems(2) xs obtain m1 bn1 where
    step: "validate_resource lim supported x (m, bn) = Inr (m1, bn1)"
    and rest: "for_each (validate_resource lim supported) n xs' (m1, bn1) = Inr (m', bn')"
    by (auto split: sum.splits)
  from validate_resource_inv [OF Suc.prems(1) step] have inv1: "byname_inv m1 bn1" .
  from validate_resource_Inr [OF step] have bn1: "map snd bn1 = map snd bn @ [x]" by auto
  from Suc.IH [OF inv1 rest] bn1 xs show ?case by simp
qed

lemma byname_inv_empty: "byname_inv Map.empty []"
  by (simp add: byname_inv_def)


section \<open>The working set of the pairing loop\<close>

lemma claim_sampler_Inl:
  "claim_sampler an Res ws = Inl f \<Longrightarrow>
   \<exists>e. f = Thrown e \<and> error_kind e = CombinedSamplerMismatch"
  by (induction an Res ws rule: claim_sampler.induct) (auto split: if_splits sum.splits)

lemma claim_sampler_subset:
  "claim_sampler an Res ws = Inr ws' \<Longrightarrow> set ws' \<subseteq> set ws"
  by (induction an Res ws arbitrary: ws' rule: claim_sampler.induct)
     (auto split: if_splits sum.splits)

lemma claim_sampler_distinct:
  "claim_sampler an Res ws = Inr ws' \<Longrightarrow> distinct ws \<Longrightarrow> distinct ws'"
proof (induction an Res ws arbitrary: ws' rule: claim_sampler.induct)
  case (2 an Res k Sam ws)
  show ?case
  proof (cases "k = an \<and> ShaderStages Sam AND ShaderStages Res \<noteq> 0")
    case True
    with "2.prems" show ?thesis by (auto split: if_splits)
  next
    case False
    with "2.prems" obtain ws1 where w: "claim_sampler an Res ws = Inr ws1" "ws' = (k, Sam) # ws1"
      by (auto split: sum.splits)
    from "2.IH" [OF False w(1)] "2.prems"(2) have "distinct ws1" by simp
    moreover from claim_sampler_subset [OF w(1)] "2.prems"(2) have "(k, Sam) \<notin> set ws1" by auto
    ultimately show ?thesis by (simp add: w(2))
  qed
qed simp

lemma claim_sampler_removed:
  "claim_sampler an Res ws = Inr ws' \<Longrightarrow> (k, S) \<in> set ws \<Longrightarrow> (k, S) \<notin> set ws' \<Longrightarrow>
   k = an \<and> ResourceType S = SHADER_RESOURCE_TYPE_SAMPLER
   \<and> ShaderStages S = ShaderStages Res \<and> VarType S = VarType Res
   \<and> ShaderStages S AND ShaderStages Res \<noteq> 0"
  by (induction an Res ws arbitrary: ws' rule: claim_sampler.induct)
     (auto split: if_splits sum.splits)

lemma claim_sampler_candidate:
  "claim_sampler an Res ws = Inr ws' \<Longrightarrow> distinct ws \<Longrightarrow> (an, C) \<in> set ws \<Longrightarrow>
   ShaderStages C AND ShaderStages Res \<noteq> 0 \<Longrightarrow>
   \<exists>C'. (an, C') \<in> set ws \<and> (an, C') \<notin> set ws'
        \<and> ResourceType C' = SHADER_RESOURCE_TYPE_SAMPLER
        \<and> ShaderStages C' = ShaderStages Res \<and> VarType C' = VarType Res"
proof (induction an Res ws arbitrary: ws' rule: claim_sampler.induct)
  case (2 an Res k Sam ws)
  show ?case
  proof (cases "k = an \<and> ShaderStages Sam AND ShaderStages Res \<noteq> 0")
    case True
    with "2.prems"(1) have g: "ResourceType Sam = SHADER_RESOURCE_TYPE_SAMPLER"
      "ShaderStages Sam = ShaderStages Res" "VarType Sam = VarType Res" "ws' = ws"
      by (auto split: if_splits)
    from "2.prems"(2) True g(4) have "(an, Sam) \<notin> set ws'" by simp
    with True g show ?thesis by auto
  next
    case False
    with "2.prems" obtain ws1 where w: "claim_sampler an Res ws = Inr ws1" "ws' = (k, Sam) # ws1"
      by (auto split: sum.splits)
    from False "2.prems"(3,4) have "(an, C) \<in> set ws" by auto
    from "2.IH" [OF False w(1) _ this "2.prems"(4)] "2.prems"(2)
    obtain C' where c: "(an, C') \<in> set ws" "(an, C') \<notin> set ws1"
        "ResourceType C' = SHADER_RESOURCE_TYPE_SAMPLER"
        "ShaderStages C' = ShaderStages Res" "VarType C' = VarType Res"
      by auto
    from c(1) "2.prems"(2) have "(an, C') \<noteq> (k, Sam)" by auto
    with c w(2) show ?thesis by auto
  qed
qed simp

lemma claim_sampler_no_candidate:
  "\<forall>(k, C) \<in> set ws. \<not> (k = an \<and> ShaderStages C AND ShaderStages Res \<noteq> 0) \<Longrightarrow>
   claim_sampler an Res ws = Inr ws"
  by (induction an Res ws rule: claim_sampler.induct) auto

lemma assign_sampler_Inl:
  assumes "assign_sampler (Some sfx) x ws = Inl f" and "Name x \<noteq> None"
  shows "\<exists>e. f = Thrown e \<and> error_kind e = CombinedSamplerMismatch"
  using assms
  by (auto simp: assign_sampler_def split: if_splits dest: claim_sampler_Inl)

lemma assign_sampler_Inr:
  assumes "assign_sampler (Some sfx) x ws = Inr ws'"
  shows "(ws' = ws \<and> ResourceType x \<noteq> SHADER_RESOURCE_TYPE_TEXTURE_SRV)
       \<or> (ResourceType x = SHADER_RESOURCE_TYPE_TEXTURE_SRV
           \<and> (\<exists>n. Name x = Some n \<and> claim_sampler (n @ sfx) x ws = Inr ws'))"
  using assms
  by (cases "Name x") (auto simp: assign_sampler_def split: if_splits)

lemma assign_sampler_subset:
  assumes "assign_sampler (Some sfx) x ws = Inr ws'"
  shows "set ws' \<subseteq> set ws" and "distinct ws \<Longrightarrow> distinct ws'"
  using assign_sampler_Inr [OF assms] claim_sampler_subset claim_sampler_distinct
  by blast+

lemma assign_samplers_subset:
  "for_each (assign_sampler (Some sfx)) n xs ws = Inr ws' \<Longrightarrow> set ws' \<subseteq> set ws"
proof (induction n arbitrary: xs ws)
  case 0
  then show ?case by simp
next
  case (Suc n)
  then obtain x xs' where xs: "xs = x # xs'" by (cases xs) auto
  with Suc.prems obtain ws1 where
    step: "assign_sampler (Some sfx) x ws = Inr ws1"
    and rest: "for_each (assign_sampler (Some sfx)) n xs' ws1 = Inr ws'"
    by (auto split: sum.splits)
  from Suc.IH [OF rest] assign_sampler_subset(1) [OF step] show ?case by blast
qed

lemma unclaimed_sampler_stays:
  assumes "for_each (assign_sampler (Some sfx)) n xs ws = Inr ws'"
    and "(k, S) \<in> set ws"
    and "\<forall>T \<in> set (take n xs). \<not> (ResourceType T = SHADER_RESOURCE_TYPE_TEXTURE_SRV
            \<and> (\<exists>nT. Name T = Some nT \<and> k = nT @ sfx)
            \<and> ShaderStages S AND ShaderStages T \<noteq> 0)"
  shows "(k, S) \<in> set ws'"
  using assms
proof (induction n arbitrary: xs ws)
  case 0
  then show ?case by simp
next
  case (Suc n)
  then obtain x xs' where xs: "xs = x # xs'" by (cases xs) auto
  with Suc.prems obtain ws1 where
    step: "assign_sampler (Some sfx) x ws = Inr ws1"
    and rest: "for_each (assign_sampler (Some sfx)) n xs' ws1 = Inr ws'"
    by (auto split: sum.splits)
  have "(k, S) \<in> set ws1"
  proof (rule ccontr)
    assume out: "(k, S) \<notin> set ws1"
    with Suc.prems(2) have "ws1 \<noteq> ws" by auto
    with assign_sampler_Inr [OF step] obtain nx where
      x: "ResourceType x = SHADER_RESOURCE_TYPE_TEXTURE_SRV" "Name x = Some nx"
         "claim_sampler (nx @ sfx) x ws = Inr ws1"
      by auto
    from claim_sampler_removed [OF x(3) Suc.prems(2) out]
    have "k = nx @ sfx" "ShaderStages S AND ShaderStages x \<noteq> 0" by blast+
    with Suc.prems(3) x(1,2) xs show False by auto
  qed
  moreover from Suc.prems(3) xs
  have "\<forall>T \<in> set (take n xs'). \<not> (ResourceType T = SHADER_RESOURCE_TYPE_TEXTURE_SRV
            \<and> (\<exists>nT. Name T = Some nT \<and> k = nT @ sfx)
            \<and> ShaderStages S AND ShaderStages T \<noteq> 0)"
    by simp
  ultimately show ?case using Suc.IH [OF rest] by blast
qed


lemma check_unassigned_sampler:
  "(k, S) \<in> set ws \<Longrightarrow> ResourceType S = SHADER_RESOURCE_TYPE_SAMPLER \<Longrightarrow>
   check_unassigned ws = Inl (Thrown SamplerNotAssigned)"
  by (induction ws rule: check_unassigned.induct) auto

lemma scanned_entry:
  assumes "for_each (validate_resource lim supported) n xs (Map.empty, []) = Inr st"
  shows "x \<in> set (take n xs) \<Longrightarrow> \<exists>k. (k, x) \<in> set (snd st) \<and> Name x = Some k"
    and "(k, r) \<in> set (snd st) \<Longrightarrow> r \<in> set (take n xs) \<and> Name r = Some k"
    and "byname_inv (fst st) (snd st)"
proof -
  from scan_resources_inv [OF byname_inv_empty, of lim supported n xs "fst st" "snd st"] assms
  have inv: "byname_inv (fst st) (snd st)" and m: "map snd (snd st) = take n xs"
    by simp_all
  from inv show "byname_inv (fst st) (snd st)" .
  have nm: "Name r = Some k" if "(k, r) \<in> set (snd st)" for k r
    using inv that by (auto simp: byname_inv_def)
  have img: "set (take n xs) = snd ` set (snd st)"
    using m by (metis set_map)
  show "x \<in> set (take n xs) \<Longrightarrow> \<exists>k. (k, x) \<in> set (snd st) \<and> Name x = Some k"
    using img nm by auto
  show "(k, r) \<in> set (snd st) \<Longrightarrow> r \<in> set (take n xs) \<and> Name r = Some k"
    using img nm by force
qed

section \<open>Textures without a sampler, samplers without a texture\<close>

text \<open>
  C4: in combined mode, once the header checks and the scan of the resources have
  passed, a texture SRV whose derived name (name followed by the suffix) is the name
  of no resource with overlapping stages leaves the working set as it is and raises
  nothing; and a sampler that no texture SRV of the descriptor claims (none has the
  derived name of the sampler together with overlapping stages) makes the validator,
  once the textures have all been processed, throw the unassigned-sampler error, of
  kind \<open>UnassignedSampler\<close>. The same holds of any sampler that is still in the
  working set when the textures have all been processed.
\<close>

theorem unmatched_texture_unassigned_sampler:
  assumes "header_checks lim D = Inr ()"
    and "for_each (validate_resource lim supported) (unat (NumResources D))
           (elems (Resources D)) (Map.empty, []) = Inr st"
    and "UseCombinedTextureSamplers D" and "CombinedSamplerSuffix D = Some sfx"
  shows "(\<forall>T \<in> set (take (unat (NumResources D)) (elems (Resources D))). \<forall>n.
            ResourceType T = SHADER_RESOURCE_TYPE_TEXTURE_SRV \<and> Name T = Some n
            \<and> (\<forall>C \<in> set (take (unat (NumResources D)) (elems (Resources D))).
                  \<not> (Name C = Some (n @ sfx) \<and> ShaderStages C AND ShaderStages T \<noteq> 0))
            \<longrightarrow> (\<forall>ws. set ws \<subseteq> set (snd st) \<longrightarrow> assign_sampler (Some sfx) T ws = Inr ws))
       \<and> (\<forall>S \<in> set (take (unat (NumResources D)) (elems (Resources D))).
            ResourceType S = SHADER_RESOURCE_TYPE_SAMPLER
            \<and> (\<forall>T \<in> set (take (unat (NumResources D)) (elems (Resources D))).
                  \<not> (ResourceType T = SHADER_RESOURCE_TYPE_TEXTURE_SRV
                     \<and> (\<exists>n. Name T = Some n \<and> Name S = Some (n @ sfx))
                     \<and> ShaderStages S AND ShaderStages T \<noteq> 0))
            \<and> (\<exists>ws. for_each (assign_sampler (Some sfx)) (unat (NumResources D))
                       (elems (Resources D)) (snd st) = Inr ws)
            \<longrightarrow> ValidatePipelineResourceSignatureDesc lim D supported
                  = Inl (Thrown SamplerNotAssigned)
                \<and> error_kind SamplerNotAssigned = UnassignedSampler)
       \<and> (\<forall>ws k S.
            for_each (assign_sampler (Some sfx)) (unat (NumResources D))
              (elems (Resources D)) (snd st) = Inr ws
            \<and> (k, S) \<in> set ws \<and> ResourceType S = SHADER_RESOURCE_TYPE_SAMPLER
            \<longrightarrow> ValidatePipelineResourceSignatureDesc lim D supported
                  = Inl (Thrown SamplerNotAssigned))"
proof (intro conjI ballI allI impI)
  fix T :: PipelineResourceDesc and n ws
  assume T: "ResourceType T = SHADER_RESOURCE_TYPE_TEXTURE_SRV \<and> Name T = Some n
            \<and> (\<forall>C \<in> set (take (unat (NumResources D)) (elems (Resources D))).
                  \<not> (Name C = Some (n @ sfx) \<and> ShaderStages C AND ShaderStages T \<noteq> 0))"
    and ws: "set ws \<subseteq> set (snd st)"
  have "claim_sampler (n @ sfx) T ws = Inr ws"
  proof (rule claim_sampler_no_candidate, clarify)
    fix C assume c: "(n @ sfx, C) \<in> set ws" "ShaderStages C AND ShaderStages T \<noteq> 0"
    with ws have "(n @ sfx, C) \<in> set (snd st)" by auto
    from scanned_entry(2) [OF assms(2) this] T c(2) show False by blast
  qed
  with T show "assign_sampler (Some sfx) T ws = Inr ws"
    by (simp add: assign_sampler_def)
next
  fix S :: PipelineResourceDesc
  assume S: "S \<in> set (take (unat (NumResources D)) (elems (Resources D)))"
    and h: "ResourceType S = SHADER_RESOURCE_TYPE_SAMPLER
            \<and> (\<forall>T \<in> set (take (unat (NumResources D)) (elems (Resources D))).
                  \<not> (ResourceType T = SHADER_RESOURCE_TYPE_TEXTURE_SRV
                     \<and> (\<exists>n. Name T = Some n \<and> Name S = Some (n @ sfx))
                     \<and> ShaderStages S AND ShaderStages T \<noteq> 0))
            \<and> (\<exists>ws. for_each (assign_sampler (Some sfx)) (unat (NumResources D))
                       (elems (Resources D)) (snd st) = Inr ws)"
  then obtain ws where loop: "for_each (assign_sampler (Some sfx)) (unat (NumResources D))
                       (elems (Resources D)) (snd st) = Inr ws"
    by blast
  from scanned_entry(1) [OF assms(2) S] obtain k where
    k: "(k, S) \<in> set (snd st)" "Name S = Some k" by blast
  have "(k, S) \<in> set ws"
    using unclaimed_sampler_stays [OF loop k(1)] h k(2) by auto
  with h have "check_unassigned ws = Inl (Thrown SamplerNotAssigned)"
    using check_unassigned_sampler by blast
  with loop assms show "ValidatePipelineResourceSignatureDesc lim D supported
                  = Inl (Thrown SamplerNotAssigned)"
    by (simp add: ValidatePipelineResourceSignatureDesc_def combined_samplers_def)
next
  fix ws k and S :: PipelineResourceDesc
  assume left: "for_each (assign_sampler (Some sfx)) (unat (NumResources D))
              (elems (Resources D)) (snd st) = Inr ws
            \<and> (k, S) \<in> set ws \<and> ResourceType S = SHADER_RESOURCE_TYPE_SAMPLER"
  then have "check_unassigned ws = Inl (Thrown SamplerNotAssigned)"
    using check_unassigned_sampler by blast
  with left assms show "ValidatePipelineResourceSignatureDesc lim D supported
                  = Inl (Thrown SamplerNotAssigned)"
    by (simp add: ValidatePipelineResourceSignatureDesc_def combined_samplers_def)
qed simp


theorem unmatched_texture_unassigned_sampler_witness:
  "assign_sampler (Some ''_sampler'')
      (resource ''g_Tex'' 2 SHADER_RESOURCE_TYPE_TEXTURE_SRV SHADER_RESOURCE_VARIABLE_TYPE_STATIC)
      lonely_by_name = Inr lonely_by_name
   \<and> ValidatePipelineResourceSignatureDesc example_limits lonely_desc True
       = Inl (Thrown SamplerNotAssigned)"
proof -
  let ?m = "[''g_Tex'' \<mapsto> 2, ''g_Tex2'' \<mapsto> 2, ''g_Tex2_sampler'' \<mapsto> 2, ''g_Lonely'' \<mapsto> 1 :: SHADER_TYPE]"
  let ?tex = "resource ''g_Tex'' 2 SHADER_RESOURCE_TYPE_TEXTURE_SRV SHADER_RESOURCE_VARIABLE_TYPE_STATIC"
  let ?lonely = "resource ''g_Lonely'' 1 SHADER_RESOURCE_TYPE_SAMPLER SHADER_RESOURCE_VARIABLE_TYPE_STATIC"
  have n: "unat (NumResources lonely_desc) = 4" "elems (Resources lonely_desc) = lonely_resources"
    by (simp_all add: lonely_desc_def signature_def lonely_resources_def elems_def)
  have tk: "take 4 lonely_resources = lonely_resources"
    by (simp add: lonely_resources_def)
  have hdr: "header_checks example_limits lonely_desc = Inr ()"
    by (simp add: header_checks_def lonely_desc_def signature_def lonely_resources_def
          example_limits_def)
  have scan: "for_each (validate_resource example_limits True) (unat (NumResources lonely_desc))
                (elems (Resources lonely_desc)) (Map.empty, []) = Inr (?m, lonely_by_name)"
    unfolding n
    by (simp add: lonely_resources_def lonely_by_name_def validate_resource_def used_stages_def
          resource_def example_limits_def SHADER_TYPE_UNKNOWN_def for_each_numeral)
  have comb: "UseCombinedTextureSamplers lonely_desc"
    "CombinedSamplerSuffix lonely_desc = Some ''_sampler''"
    by (simp_all add: lonely_desc_def signature_def)
  have loop: "for_each (assign_sampler (Some ''_sampler'')) 4 lonely_resources lonely_by_name
                = Inr [(''g_Tex'', ?tex),
                       (''g_Tex2'', resource ''g_Tex2'' 2 SHADER_RESOURCE_TYPE_TEXTURE_SRV
                                      SHADER_RESOURCE_VARIABLE_TYPE_STATIC),
                       (''g_Lonely'', ?lonely)]"
    by (simp add: lonely_resources_def lonely_by_name_def assign_sampler_def resource_def
          for_each_numeral)
  note t = unmatched_texture_unassigned_sampler [OF hdr scan comb, unfolded n tk snd_conv]
  have a: "assign_sampler (Some ''_sampler'') ?tex lonely_by_name = Inr lonely_by_name"
    by (rule t [THEN conjunct1, rule_format, of ?tex "''g_Tex''"])
       (auto simp: lonely_resources_def resource_def)
  have b: "ValidatePipelineResourceSignatureDesc example_limits lonely_desc True
       = Inl (Thrown SamplerNotAssigned)"
    by (rule t [THEN conjunct2, THEN conjunct1, rule_format, of ?lonely, THEN conjunct1])
       (auto simp: lonely_resources_def resource_def loop [unfolded lonely_resources_def resource_def])
  from a b show ?thesis by simp
qed


section \<open>The candidate of a texture\<close>

lemma same_key_overlap_eq:
  assumes "byname_inv m bn" and "(k, C) \<in> set bn" and "(k, C') \<in> set bn"
    and "ShaderStages C AND ShaderStages C' \<noteq> 0"
  shows "C = C'"
  using assms by (auto simp: byname_inv_def)

lemma claimed_candidate_is_the_one:
  assumes inv: "byname_inv m bn" and sub: "set ws \<subseteq> set bn" and d: "distinct ws"
    and ok: "claim_sampler an T ws = Inr ws'"
    and C: "(an, C) \<in> set ws" "ShaderStages C AND ShaderStages T \<noteq> 0"
  shows "(an, C) \<notin> set ws' \<and> ResourceType C = SHADER_RESOURCE_TYPE_SAMPLER
         \<and> ShaderStages C = ShaderStages T \<and> VarType C = VarType T"
proof -
  from claim_sampler_candidate [OF ok d C] obtain C' where
    c: "(an, C') \<in> set ws" "(an, C') \<notin> set ws'"
       "ResourceType C' = SHADER_RESOURCE_TYPE_SAMPLER"
       "ShaderStages C' = ShaderStages T" "VarType C' = VarType T"
    by blast
  from C(2) c(4) have "ShaderStages C AND ShaderStages C' \<noteq> 0" by simp
  with same_key_overlap_eq [OF inv, of an C C'] sub C(1) c(1) have "C = C'" by blast
  with c show ?thesis by simp
qed

lemma claim_sampler_good:
  assumes "distinct ws" and "(an, C) \<in> set ws"
    and "ResourceType C = SHADER_RESOURCE_TYPE_SAMPLER"
    and "ShaderStages C = ShaderStages T" and "VarType C = VarType T"
    and "ShaderStages C AND ShaderStages T \<noteq> 0"
    and "\<forall>C'. (an, C') \<in> set ws \<and> ShaderStages C' AND ShaderStages T \<noteq> 0 \<longrightarrow> C' = C"
  shows "\<exists>ws'. claim_sampler an T ws = Inr ws' \<and> set ws' = set ws - {(an, C)}"
  using assms(1,2,7)
proof (induction ws)
  case Nil
  then show ?case by simp
next
  case (Cons p ws)
  obtain k Sam where p: "p = (k, Sam)" by (cases p)
  show ?case
  proof (cases "k = an \<and> ShaderStages Sam AND ShaderStages T \<noteq> 0")
    case True
    with Cons.prems(3) p have "Sam = C" by simp
    with True p have pC: "p = (an, C)" by simp
    have 1: "claim_sampler an T (p # ws) = Inr ws"
      unfolding pC using assms(3-6) by simp
    from Cons.prems(1) pC have "(an, C) \<notin> set ws" by simp
    then have 2: "set ws = set (p # ws) - {(an, C)}"
      unfolding pC by simp
    from 1 2 show ?thesis by blast
  next
    case False
    with assms(6) p have neq: "p \<noteq> (an, C)" by auto
    with Cons.prems(2) have "(an, C) \<in> set ws" by simp
    moreover from Cons.prems(1) have "distinct ws" by simp
    moreover from Cons.prems(3)
    have "\<forall>C'. (an, C') \<in> set ws \<and> ShaderStages C' AND ShaderStages T \<noteq> 0 \<longrightarrow> C' = C"
      by simp
    ultimately obtain ws1 where
      w: "claim_sampler an T ws = Inr ws1" "set ws1 = set ws - {(an, C)}"
      using Cons.IH by blast
    have "claim_sampler an T ((k, Sam) # ws) =
            (case claim_sampler an T ws of Inl e \<Rightarrow> Inl e | Inr ws' \<Rightarrow> Inr ((k, Sam) # ws'))"
      using False by (simp only: claim_sampler.simps if_False)
    with p w(1) have 1: "claim_sampler an T (p # ws) = Inr (p # ws1)"
      by simp
    from neq w(2) have 2: "set (p # ws1) = set (p # ws) - {(an, C)}"
      by auto
    from 1 2 show ?thesis by blast
  qed
qed


lemma bad_candidate_mismatch:
  assumes inv: "byname_inv m bn"
    and "set ws \<subseteq> set bn" and "distinct ws"
    and "\<forall>x \<in> set (take n xs). \<exists>k. (k, x) \<in> set bn"
    and "T \<in> set (take n xs)" and "ResourceType T = SHADER_RESOURCE_TYPE_TEXTURE_SRV"
    and "Name T = Some nT"
    and "(nT @ sfx, C) \<in> set ws" and "ShaderStages C AND ShaderStages T \<noteq> 0"
    and "ResourceType C \<noteq> SHADER_RESOURCE_TYPE_SAMPLER
         \<or> ShaderStages C \<noteq> ShaderStages T \<or> VarType C \<noteq> VarType T"
  shows "\<exists>e. for_each (assign_sampler (Some sfx)) n xs ws = Inl (Thrown e)
            \<and> error_kind e = CombinedSamplerMismatch"
  using assms(2-5,8)
proof (induction n arbitrary: xs ws)
  case 0
  then show ?case by simp
next
  case (Suc n)
  then obtain x xs' where xs: "xs = x # xs'" by (cases xs) auto
  from Suc.prems(3) xs obtain kx where kx: "(kx, x) \<in> set bn" by auto
  with inv have nx: "Name x = Some kx" by (auto simp: byname_inv_def)
  from Suc.prems(3,4) assms(7) obtain kT where "(kT, T) \<in> set bn" by blast
  with inv assms(7) have Tbn: "(nT, T) \<in> set bn" by (auto simp: byname_inv_def)
  show ?case
  proof (cases "assign_sampler (Some sfx) x ws")
    case (Inl f)
    from assign_sampler_Inl [OF Inl] nx obtain e where
      "f = Thrown e" "error_kind e = CombinedSamplerMismatch" by auto
    with Inl xs show ?thesis by simp
  next
    case (Inr ws1)
    have xT: "x \<noteq> T"
    proof
      assume "x = T"
      with Inr assms(6,7) have "claim_sampler (nT @ sfx) T ws = Inr ws1"
        by (simp add: assign_sampler_def)
      from claimed_candidate_is_the_one [OF inv Suc.prems(1,2) this Suc.prems(5) assms(9)]
        assms(10)
      show False by simp
    qed
    with Suc.prems(4) xs have Tin: "T \<in> set (take n xs')" by simp
    have Cin: "(nT @ sfx, C) \<in> set ws1"
    proof (rule ccontr)
      assume out: "(nT @ sfx, C) \<notin> set ws1"
      with Suc.prems(5) have "ws1 \<noteq> ws" by auto
      with assign_sampler_Inr [OF Inr] nx have
        cl: "claim_sampler (kx @ sfx) x ws = Inr ws1" by auto
      from claim_sampler_removed [OF cl Suc.prems(5) out]
      have eq: "nT @ sfx = kx @ sfx" "ShaderStages C = ShaderStages x" by simp_all
      then have "kx = nT" by simp
      with kx Tbn xT inv have "ShaderStages x AND ShaderStages T = 0"
        by (auto simp: byname_inv_def)
      with eq(2) assms(9) show False by simp
    qed
    from assign_sampler_subset [OF Inr] Suc.prems(1,2)
    have s1: "set ws1 \<subseteq> set bn" "distinct ws1" by auto
    from Suc.prems(3) xs have "\<forall>x \<in> set (take n xs'). \<exists>k. (k, x) \<in> set bn" by simp
    from Suc.IH [OF s1 this Tin Cin] Inr xs show ?thesis by simp
  qed
qed

lemma good_candidate_claimed:
  assumes inv: "byname_inv m bn"
    and "set ws \<subseteq> set bn" and "distinct ws"
    and "T \<in> set (take n xs)" and "ResourceType T = SHADER_RESOURCE_TYPE_TEXTURE_SRV"
    and "Name T = Some nT"
    and "ShaderStages C AND ShaderStages T \<noteq> 0"
    and "for_each (assign_sampler (Some sfx)) n xs ws = Inr ws'"
  shows "(nT @ sfx, C) \<notin> set ws'"
  using assms(2-4,8)
proof (induction n arbitrary: xs ws)
  case 0
  then show ?case by simp
next
  case (Suc n)
  then obtain x xs' where xs: "xs = x # xs'" by (cases xs) auto
  with Suc.prems obtain ws1 where
    step: "assign_sampler (Some sfx) x ws = Inr ws1"
    and rest: "for_each (assign_sampler (Some sfx)) n xs' ws1 = Inr ws'"
    by (auto split: sum.splits)
  from assign_sampler_subset [OF step] Suc.prems(1,2)
  have s1: "set ws1 \<subseteq> set bn" "distinct ws1" "set ws1 \<subseteq> set ws" by auto
  show ?case
  proof (cases "x = T")
    case True
    with step assms(5,6) have cl: "claim_sampler (nT @ sfx) T ws = Inr ws1"
      by (simp add: assign_sampler_def)
    have "(nT @ sfx, C) \<notin> set ws1"
    proof (cases "(nT @ sfx, C) \<in> set ws")
      case True
      from claimed_candidate_is_the_one [OF inv Suc.prems(1,2) cl True assms(7)]
      show ?thesis by simp
    next
      case False
      with s1(3) show ?thesis by auto
    qed
    with assign_samplers_subset [OF rest] show ?thesis by auto
  next
    case False
    with Suc.prems(3) xs have "T \<in> set (take n xs')" by simp
    from Suc.IH [OF s1(1,2) this rest] show ?thesis .
  qed
qed

text \<open>
  C2: in combined mode, once the header checks and the scan of the resources have
  passed, take a texture SRV and a resource that bears its derived name and has
  stages overlapping the texture's. If that candidate is not a sampler, or its stages
  are not exactly the texture's, or its variable type differs, the validator throws
  an error of kind \<open>CombinedSamplerMismatch\<close>. Otherwise the step of the texture
  takes the candidate, and only it, out of the working set, and the candidate is not
  in the working set that is left when all textures have been processed.
\<close>

theorem combined_sampler_candidate_checked:
  assumes "header_checks lim D = Inr ()"
    and "for_each (validate_resource lim supported) (unat (NumResources D))
           (elems (Resources D)) (Map.empty, []) = Inr st"
    and "UseCombinedTextureSamplers D" and "CombinedSamplerSuffix D = Some sfx"
    and "T \<in> set (take (unat (NumResources D)) (elems (Resources D)))"
    and "ResourceType T = SHADER_RESOURCE_TYPE_TEXTURE_SRV" and "Name T = Some n"
    and "C \<in> set (take (unat (NumResources D)) (elems (Resources D)))"
    and "Name C = Some (n @ sfx)" and "ShaderStages C AND ShaderStages T \<noteq> 0"
  shows "(ResourceType C \<noteq> SHADER_RESOURCE_TYPE_SAMPLER
            \<or> ShaderStages C \<noteq> ShaderStages T \<or> VarType C \<noteq> VarType T \<longrightarrow>
          (\<exists>e. ValidatePipelineResourceSignatureDesc lim D supported = Inl (Thrown e)
                \<and> error_kind e = CombinedSamplerMismatch))
       \<and> (ResourceType C = SHADER_RESOURCE_TYPE_SAMPLER
            \<and> ShaderStages C = ShaderStages T \<and> VarType C = VarType T \<longrightarrow>
          (\<forall>ws. set ws \<subseteq> set (snd st) \<and> distinct ws \<and> (n @ sfx, C) \<in> set ws \<longrightarrow>
                 (\<exists>ws'. assign_sampler (Some sfx) T ws = Inr ws'
                        \<and> set ws' = set ws - {(n @ sfx, C)}))
          \<and> (\<forall>ws. for_each (assign_sampler (Some sfx)) (unat (NumResources D))
                   (elems (Resources D)) (snd st) = Inr ws
                 \<longrightarrow> (n @ sfx, C) \<notin> set ws))"
proof (intro conjI impI allI)
  note inv = scanned_entry(3) [OF assms(2)]
  from scanned_entry(1) [OF assms(2) assms(8)] assms(9)
  have Cin: "(n @ sfx, C) \<in> set (snd st)" by auto
  have all: "\<forall>x \<in> set (take (unat (NumResources D)) (elems (Resources D))).
               \<exists>k. (k, x) \<in> set (snd st)"
    using scanned_entry(1) [OF assms(2)] by blast
  from inv have d: "distinct (snd st)" by (simp add: byname_inv_def)
  assume bad: "ResourceType C \<noteq> SHADER_RESOURCE_TYPE_SAMPLER
            \<or> ShaderStages C \<noteq> ShaderStages T \<or> VarType C \<noteq> VarType T"
  from bad_candidate_mismatch [OF inv subset_refl d all assms(5,6,7) Cin assms(10) bad]
  obtain e where e: "for_each (assign_sampler (Some sfx)) (unat (NumResources D))
                       (elems (Resources D)) (snd st) = Inl (Thrown e)"
      "error_kind e = CombinedSamplerMismatch"
    by blast
  with assms(1-4) have "ValidatePipelineResourceSignatureDesc lim D supported = Inl (Thrown e)"
    by (simp add: ValidatePipelineResourceSignatureDesc_def combined_samplers_def)
  with e(2) show "\<exists>e. ValidatePipelineResourceSignatureDesc lim D supported = Inl (Thrown e)
                \<and> error_kind e = CombinedSamplerMismatch"
    by blast
next
  fix ws
  note inv = scanned_entry(3) [OF assms(2)]
  assume good: "ResourceType C = SHADER_RESOURCE_TYPE_SAMPLER
            \<and> ShaderStages C = ShaderStages T \<and> VarType C = VarType T"
    and ws: "set ws \<subseteq> set (snd st) \<and> distinct ws \<and> (n @ sfx, C) \<in> set ws"
  have only: "\<forall>C'. (n @ sfx, C') \<in> set ws \<and> ShaderStages C' AND ShaderStages T \<noteq> 0
                \<longrightarrow> C' = C"
  proof (intro allI impI)
    fix C' assume c: "(n @ sfx, C') \<in> set ws \<and> ShaderStages C' AND ShaderStages T \<noteq> 0"
    with good have "ShaderStages C' AND ShaderStages C \<noteq> 0" by simp
    with same_key_overlap_eq [OF inv, of "n @ sfx" C' C] c ws show "C' = C" by blast
  qed
  from claim_sampler_good [of ws "n @ sfx" C T] ws good only assms(10)
  have "\<exists>ws'. claim_sampler (n @ sfx) T ws = Inr ws' \<and> set ws' = set ws - {(n @ sfx, C)}"
    by blast
  with assms(6,7) show "\<exists>ws'. assign_sampler (Some sfx) T ws = Inr ws'
                        \<and> set ws' = set ws - {(n @ sfx, C)}"
    by (simp add: assign_sampler_def)
next
  fix ws
  note inv = scanned_entry(3) [OF assms(2)]
  from inv have d: "distinct (snd st)" by (simp add: byname_inv_def)
  assume "for_each (assign_sampler (Some sfx)) (unat (NumResources D))
                   (elems (Resources D)) (snd st) = Inr ws"
  from good_candidate_claimed [OF inv subset_refl d assms(5,6,7) assms(10) this]
  show "(n @ sfx, C) \<notin> set ws" .
qed




theorem combined_sampler_candidate_checked_witness:
  "(\<exists>e. ValidatePipelineResourceSignatureDesc example_limits (mismatch_desc 3) True
           = Inl (Thrown e) \<and> error_kind e = CombinedSamplerMismatch)
   \<and> ValidatePipelineResourceSignatureDesc example_limits (mismatch_desc 3) True
       = Inl (Thrown CombinedDifferentStages)
   \<and> for_each (assign_sampler (Some ''_sampler'')) 3 (elems (Resources (mismatch_desc 2)))
         [(''g_CB'', resource ''g_CB'' 3 SHADER_RESOURCE_TYPE_CONSTANT_BUFFER
                       SHADER_RESOURCE_VARIABLE_TYPE_STATIC),
          (''g_Tex'', resource ''g_Tex'' 2 SHADER_RESOURCE_TYPE_TEXTURE_SRV
                        SHADER_RESOURCE_VARIABLE_TYPE_MUTABLE),
          (''g_Tex_sampler'', resource ''g_Tex_sampler'' 2 SHADER_RESOURCE_TYPE_SAMPLER
                                SHADER_RESOURCE_VARIABLE_TYPE_MUTABLE)]
       = Inr [(''g_CB'', resource ''g_CB'' 3 SHADER_RESOURCE_TYPE_CONSTANT_BUFFER
                           SHADER_RESOURCE_VARIABLE_TYPE_STATIC),
              (''g_Tex'', resource ''g_Tex'' 2 SHADER_RESOURCE_TYPE_TEXTURE_SRV
                            SHADER_RESOURCE_VARIABLE_TYPE_MUTABLE)]
   \<and> (''g_Tex_sampler'', resource ''g_Tex_sampler'' 2 SHADER_RESOURCE_TYPE_SAMPLER
                            SHADER_RESOURCE_VARIABLE_TYPE_MUTABLE)
       \<notin> set [(''g_CB'', resource ''g_CB'' 3 SHADER_RESOURCE_TYPE_CONSTANT_BUFFER
                               SHADER_RESOURCE_VARIABLE_TYPE_STATIC),
                  (''g_Tex'', resource ''g_Tex'' 2 SHADER_RESOURCE_TYPE_TEXTURE_SRV
                                SHADER_RESOURCE_VARIABLE_TYPE_MUTABLE)]
   \<and> ValidatePipelineResourceSignatureDesc example_limits (mismatch_desc 2) True = Inr ()"
proof -
  let ?cb = "resource ''g_CB'' 3 SHADER_RESOURCE_TYPE_CONSTANT_BUFFER
               SHADER_RESOURCE_VARIABLE_TYPE_STATIC"
  let ?tex = "resource ''g_Tex'' 2 SHADER_RESOURCE_TYPE_TEXTURE_SRV
               SHADER_RESOURCE_VARIABLE_TYPE_MUTABLE"
  let ?sam = "\<lambda>s. resource ''g_Tex_sampler'' s SHADER_RESOURCE_TYPE_SAMPLER
               SHADER_RESOURCE_VARIABLE_TYPE_MUTABLE"
  let ?m = "\<lambda>s. [''g_CB'' \<mapsto> 3, ''g_Tex'' \<mapsto> 2, ''g_Tex_sampler'' \<mapsto> s :: SHADER_TYPE]"
  let ?bn = "\<lambda>s. [(''g_CB'', ?cb), (''g_Tex'', ?tex), (''g_Tex_sampler'', ?sam s)]"
  have n: "unat (NumResources (mismatch_desc s)) = 3"
    "elems (Resources (mismatch_desc s)) = [?cb, ?tex, ?sam s]" for s
    by (simp_all add: mismatch_desc_def signature_def elems_def)
  have hdr: "header_checks example_limits (mismatch_desc s) = Inr ()" for s
    by (simp add: header_checks_def mismatch_desc_def signature_def example_limits_def)
  have scan: "s \<noteq> 0 \<Longrightarrow>
      for_each (validate_resource example_limits True) (unat (NumResources (mismatch_desc s)))
        (elems (Resources (mismatch_desc s))) (Map.empty, []) = Inr (?m s, ?bn s)" for s
    unfolding n
    by (simp add: validate_resource_def used_stages_def resource_def example_limits_def
          SHADER_TYPE_UNKNOWN_def for_each_numeral)
  have comb: "UseCombinedTextureSamplers (mismatch_desc s)"
    "CombinedSamplerSuffix (mismatch_desc s) = Some ''_sampler''" for s
    by (simp_all add: mismatch_desc_def signature_def)
  have tin: "?tex \<in> set (take (unat (NumResources (mismatch_desc s)))
                            (elems (Resources (mismatch_desc s))))"
     and sin: "?sam s \<in> set (take (unat (NumResources (mismatch_desc s)))
                            (elems (Resources (mismatch_desc s))))" for s
    unfolding n by simp_all
  have props: "ResourceType ?tex = SHADER_RESOURCE_TYPE_TEXTURE_SRV" "Name ?tex = Some ''g_Tex''"
    "Name (?sam s) = Some (''g_Tex'' @ ''_sampler'')" for s
    by (simp_all add: resource_def)
  have ov3: "ShaderStages (?sam 3) AND ShaderStages ?tex \<noteq> 0"
    and ov2: "ShaderStages (?sam 2) AND ShaderStages ?tex \<noteq> 0"
    by (simp_all add: resource_def)
  have s3: "(3 :: SHADER_TYPE) \<noteq> 0" and s2: "(2 :: SHADER_TYPE) \<noteq> 0"
    by simp_all
  note bad = combined_sampler_candidate_checked
    [OF hdr [of 3] scan [OF s3] comb [of 3] tin [of 3] props(1,2) sin [of 3] props(3) [of 3] ov3,
     THEN conjunct1]
  note good = combined_sampler_candidate_checked
    [OF hdr [of 2] scan [OF s2] comb [of 2] tin [of 2] props(1,2) sin [of 2] props(3) [of 2] ov2,
     THEN conjunct2, rule_format, THEN conjunct2, rule_format]
  have a: "\<exists>e. ValidatePipelineResourceSignatureDesc example_limits (mismatch_desc 3) True
           = Inl (Thrown e) \<and> error_kind e = CombinedSamplerMismatch"
    using bad by (simp add: resource_def)
  have a': "ValidatePipelineResourceSignatureDesc example_limits (mismatch_desc 3) True
       = Inl (Thrown CombinedDifferentStages)"
    by (simp add: validate_defs mismatch_desc_def signature_def resource_def example_limits_def
          for_each_numeral)
  have loop: "for_each (assign_sampler (Some ''_sampler'')) 3
                (elems (Resources (mismatch_desc 2))) (?bn 2)
              = Inr [(''g_CB'', ?cb), (''g_Tex'', ?tex)]"
    unfolding n by (simp add: assign_sampler_def resource_def for_each_numeral)
  have b: "(''g_Tex_sampler'', ?sam 2) \<notin> set [(''g_CB'', ?cb), (''g_Tex'', ?tex)]"
    using good [of "[(''g_CB'', ?cb), (''g_Tex'', ?tex)]"] loop
    by (simp add: n resource_def)
  have c: "ValidatePipelineResourceSignatureDesc example_limits (mismatch_desc 2) True = Inr ()"
    by (simp add: validate_defs mismatch_desc_def signature_def resource_def example_limits_def
          for_each_numeral)
  from a a' loop b c show ?thesis by blast
qed


section \<open>Names repeated across stages\<close>

lemma or_and_zero:
  fixes u t s :: "'a::len word"
  assumes "u AND s = 0" and "t AND s = 0"
  shows "(u OR t) AND s = 0"
proof -
  have "(u OR t) AND s = (u AND s) OR (t AND s)"
    by (rule bit_eqI) (auto simp: bit_and_iff bit_or_iff)
  with assms show ?thesis by simp
qed

lemma stage_cover_empty: "stage_cover Map.empty []"
  by (simp add: stage_cover_def used_stages_def)

lemma stage_cover_step:
  assumes "stage_cover m bn"
  shows "stage_cover (m(k \<mapsto> used_stages m k OR ShaderStages x)) (bn @ [(k, x)])"
  unfolding stage_cover_def
proof (intro allI impI)
  fix k' s
  assume h: "\<forall>r. (k', r) \<in> set (bn @ [(k, x)]) \<longrightarrow> ShaderStages r AND s = 0"
  then have old: "\<forall>r. (k', r) \<in> set bn \<longrightarrow> ShaderStages r AND s = 0" by simp
  with assms have u: "used_stages m k' AND s = 0" by (simp add: stage_cover_def)
  show "used_stages (m(k \<mapsto> used_stages m k OR ShaderStages x)) k' AND s = 0"
  proof (cases "k' = k")
    case True
    with h have "ShaderStages x AND s = 0" by simp
    with u True show ?thesis by (simp add: used_stages_def or_and_zero)
  next
    case False
    with u show ?thesis by (simp add: used_stages_def)
  qed
qed

lemma validate_resource_passes:
  assumes "own_checks lim supported x" and "Name x = Some k"
    and "used_stages m k AND ShaderStages x = 0"
  shows "validate_resource lim supported x (m, bn)
           = Inr (m(k \<mapsto> used_stages m k OR ShaderStages x), bn @ [(k, x)])"
  using assms by (auto simp: validate_resource_def own_checks_def)

lemma scan_succeeds:
  assumes "stage_cover m bn"
    and "\<forall>x \<in> set xs. own_checks lim supported x"
    and "same_names_disjoint xs"
    and "\<forall>x \<in> set xs. \<forall>k r. Name x = Some k \<and> (k, r) \<in> set bn
           \<longrightarrow> ShaderStages r AND ShaderStages x = 0"
  shows "\<exists>st. for_each (validate_resource lim supported) (length xs) xs (m, bn) = Inr st"
  using assms
proof (induction xs arbitrary: m bn)
  case Nil
  then show ?case by simp
next
  case (Cons x xs)
  from Cons.prems(2) obtain k where k: "Name x = Some k" and own: "own_checks lim supported x"
    by (auto simp: own_checks_def)
  from Cons.prems(4) k have "\<forall>r. (k, r) \<in> set bn \<longrightarrow> ShaderStages r AND ShaderStages x = 0"
    by simp
  with Cons.prems(1) have u: "used_stages m k AND ShaderStages x = 0"
    by (simp add: stage_cover_def)
  let ?m = "m(k \<mapsto> used_stages m k OR ShaderStages x)"
  let ?bn = "bn @ [(k, x)]"
  from validate_resource_passes [OF own k u]
  have step: "validate_resource lim supported x (m, bn) = Inr (?m, ?bn)" .
  have "\<exists>st. for_each (validate_resource lim supported) (length xs) xs (?m, ?bn) = Inr st"
  proof (rule Cons.IH)
    show "stage_cover ?m ?bn" using Cons.prems(1) by (rule stage_cover_step)
    show "\<forall>x \<in> set xs. own_checks lim supported x" using Cons.prems(2) by simp
    show "same_names_disjoint xs" using Cons.prems(3) by simp
    show "\<forall>y \<in> set xs. \<forall>k' r. Name y = Some k' \<and> (k', r) \<in> set ?bn
           \<longrightarrow> ShaderStages r AND ShaderStages y = 0"
    proof (intro ballI allI impI)
      fix y k' r
      assume y: "y \<in> set xs" and kr: "Name y = Some k' \<and> (k', r) \<in> set ?bn"
      show "ShaderStages r AND ShaderStages y = 0"
      proof (cases "(k', r) \<in> set bn")
        case True
        with Cons.prems(4) y kr show ?thesis by auto
      next
        case False
        with kr have "k' = k" "r = x" by auto
        with Cons.prems(3) y kr k show ?thesis by auto
      qed
    qed
  qed
  with step show ?case by simp
qed

lemma same_names_disjointI:
  assumes "\<forall>a b. a < b \<and> b < length xs \<and> Name (xs ! a) = Name (xs ! b)
             \<longrightarrow> ShaderStages (xs ! a) AND ShaderStages (xs ! b) = 0"
  shows "same_names_disjoint xs"
  using assms
proof (induction xs)
  case Nil
  then show ?case by simp
next
  case (Cons x xs)
  have head: "\<forall>y \<in> set xs. Name y = Name x \<longrightarrow> ShaderStages x AND ShaderStages y = 0"
  proof (intro ballI impI)
    fix y assume "y \<in> set xs" and n: "Name y = Name x"
    then obtain b where b: "b < length xs" "xs ! b = y" by (auto simp: in_set_conv_nth)
    from Cons.prems [rule_format, of 0 "Suc b"] b n
    show "ShaderStages x AND ShaderStages y = 0" by simp
  qed
  have "\<forall>a b. a < b \<and> b < length xs \<and> Name (xs ! a) = Name (xs ! b)
             \<longrightarrow> ShaderStages (xs ! a) AND ShaderStages (xs ! b) = 0"
  proof (intro allI impI)
    fix a b assume "a < b \<and> b < length xs \<and> Name (xs ! a) = Name (xs ! b)"
    with Cons.prems [rule_format, of "Suc a" "Suc b"]
    show "ShaderStages (xs ! a) AND ShaderStages (xs ! b) = 0" by simp
  qed
  from Cons.IH [OF this] head show ?case by simp
qed

lemma for_each_take:
  "for_each body n xs st = for_each body n (take n xs) st"
proof (induction n arbitrary: xs st)
  case 0
  then show ?case by simp
next
  case (Suc n)
  show ?case
  proof (cases xs)
    case Nil
    then show ?thesis by simp
  next
    case (Cons x xs')
    with Suc.IH [of xs'] show ?thesis by (simp split: sum.splits)
  qed
qed


text \<open>
  C6: take a descriptor that holds, anywhere among its resources, two resources of
  the same name, and that has nothing else wrong with it: the header checks pass,
  every resource passes the checks on its name, stages, array size and flags, no
  other two resources of one name share a stage, and the pairing of samplers and the
  immutable samplers raise nothing. Then the descriptor is accepted when the stage
  masks of the two do not overlap, and is rejected with the overlapping-stages error,
  of kind \<open>DuplicateNameOverlappingStages\<close>, when they do.
\<close>

theorem same_name_stage_overlap:
  assumes "header_checks lim D = Inr ()"
    and "Resources D = Some xs" and "unat (NumResources D) \<le> length xs"
    and "i < j" and "j < unat (NumResources D)"
    and "Name (xs ! i) = Some n" and "Name (xs ! j) = Some n"
    and "\<forall>a < unat (NumResources D).
           (\<exists>k. Name (xs ! a) = Some k \<and> k \<noteq> [])
           \<and> ShaderStages (xs ! a) \<noteq> SHADER_TYPE_UNKNOWN \<and> ArraySize (xs ! a) \<noteq> 0
           \<and> (Flags (xs ! a) AND PIPELINE_RESOURCE_FLAG_RUNTIME_ARRAY lim = 0 \<or> supported)
           \<and> Flags (xs ! a) AND NOT (GetValidPipelineResourceFlags lim (ResourceType (xs ! a))) = 0"
    and "\<forall>a b. a < b \<and> b < unat (NumResources D) \<and> (a, b) \<noteq> (i, j)
               \<and> Name (xs ! a) = Name (xs ! b)
           \<longrightarrow> ShaderStages (xs ! a) AND ShaderStages (xs ! b) = 0"
    and "\<forall>st. for_each (validate_resource lim supported) (unat (NumResources D)) xs
                 (Map.empty, []) = Inr st
           \<longrightarrow> UseCombinedTextureSamplers D \<longrightarrow> combined_samplers D (snd st) = Inr ()"
    and "for_each validate_immutable_sampler (unat (NumImmutableSamplers D))
           (elems (ImmutableSamplers D)) Map.empty = Inr m"
  shows "(ShaderStages (xs ! i) AND ShaderStages (xs ! j) = 0 \<longrightarrow>
            ValidatePipelineResourceSignatureDesc lim D supported = Inr ())
       \<and> (ShaderStages (xs ! i) AND ShaderStages (xs ! j) \<noteq> 0 \<longrightarrow>
            ValidatePipelineResourceSignatureDesc lim D supported
              = Inl (Thrown ResourceOverlappingStages)
            \<and> error_kind ResourceOverlappingStages = DuplicateNameOverlappingStages)"
proof (intro conjI impI)
  let ?N = "unat (NumResources D)"
  let ?body = "validate_resource lim supported"
  have el: "elems (Resources D) = xs" using assms(2) by (simp add: elems_def)
  have own: "own_checks lim supported (xs ! a)" if "a < ?N" for a
    using assms(8) that by (simp add: own_checks_def)
  have own_take: "\<forall>x \<in> set (take k xs). own_checks lim supported x" if "k \<le> ?N" for k
  proof
    fix x assume "x \<in> set (take k xs)"
    then obtain a where "a < length (take k xs)" "take k xs ! a = x"
      by (auto simp: in_set_conv_nth)
    with that assms(3) own [of a] show "own_checks lim supported x" by simp
  qed
  have fresh: "\<forall>x \<in> set ys. \<forall>k r. Name x = Some k \<and> (k, r) \<in> set []
           \<longrightarrow> ShaderStages r AND ShaderStages x = 0" for ys :: "PipelineResourceDesc list"
    by simp
  {
    assume dj: "ShaderStages (xs ! i) AND ShaderStages (xs ! j) = 0"
    have pw: "same_names_disjoint (take ?N xs)"
    proof (rule same_names_disjointI, intro allI impI)
      fix a b
      assume ab: "a < b \<and> b < length (take ?N xs)
                  \<and> Name (take ?N xs ! a) = Name (take ?N xs ! b)"
      then have lt: "a < b" "b < ?N" "a < ?N" by simp_all
      with ab have nm: "Name (xs ! a) = Name (xs ! b)" by simp
      have "ShaderStages (xs ! a) AND ShaderStages (xs ! b) = 0"
      proof (cases "(a, b) = (i, j)")
        case True
        with dj show ?thesis by simp
      next
        case False
        with assms(9) lt nm show ?thesis by blast
      qed
      with lt show "ShaderStages (take ?N xs ! a) AND ShaderStages (take ?N xs ! b) = 0"
        by simp
    qed
    from scan_succeeds [OF stage_cover_empty own_take [OF order_refl] pw fresh]
      assms(3)
    obtain st where "for_each ?body ?N (take ?N xs) (Map.empty, []) = Inr st"
      by auto
    then have scan: "for_each ?body ?N xs (Map.empty, []) = Inr st"
      by (simp add: for_each_take [symmetric])
    with assms(10) have "UseCombinedTextureSamplers D \<longrightarrow> combined_samplers D (snd st) = Inr ()"
      by blast
    with assms(1,11) scan el
    show "ValidatePipelineResourceSignatureDesc lim D supported = Inr ()"
      by (simp add: ValidatePipelineResourceSignatureDesc_def)
  }
  {
    assume ov: "ShaderStages (xs ! i) AND ShaderStages (xs ! j) \<noteq> 0"
    let ?pre = "take j xs"
    from assms(3,5) have jl: "j < length xs" by simp
    then have lp: "length ?pre = j" by simp
    have pw: "same_names_disjoint ?pre"
    proof (rule same_names_disjointI, intro allI impI)
      fix a b
      assume ab: "a < b \<and> b < length ?pre \<and> Name (?pre ! a) = Name (?pre ! b)"
      with lp have lt: "a < b" "b < j" "a < j" by simp_all
      with ab have nm: "Name (xs ! a) = Name (xs ! b)" by simp
      from lt have "(a, b) \<noteq> (i, j)" by simp
      with assms(9) lt assms(5) nm
      have "ShaderStages (xs ! a) AND ShaderStages (xs ! b) = 0" by simp
      with lt show "ShaderStages (?pre ! a) AND ShaderStages (?pre ! b) = 0" by simp
    qed
    from assms(5) have "j \<le> ?N" by simp
    from scan_succeeds [OF stage_cover_empty own_take [OF this] pw fresh] lp
    obtain st where pre: "for_each ?body j ?pre (Map.empty, []) = Inr st"
      by auto
    from assms(4) jl have "xs ! i \<in> set (take j ?pre)"
      by (auto simp: in_set_conv_nth intro!: exI [of _ i])
    from scanned_entry(1) [OF pre this] assms(6)
    have ent: "(n, xs ! i) \<in> set (snd st)" by auto
    from scanned_entry(3) [OF pre] ent
    have sub: "ShaderStages (xs ! i) AND used_stages (fst st) n = ShaderStages (xs ! i)"
      by (auto simp: byname_inv_def)
    have used: "used_stages (fst st) n AND ShaderStages (xs ! j) \<noteq> 0"
    proof
      assume "used_stages (fst st) n AND ShaderStages (xs ! j) = 0"
      from and_subset_disjoint [OF sub this] ov show False by simp
    qed
    from own [OF assms(5)] assms(7) used
    have r2: "?body (xs ! j) st = Inl (Thrown ResourceOverlappingStages)"
      by (simp add: validate_resource_def own_checks_def)
    have dec: "xs = ?pre @ xs ! j # drop (Suc j) xs"
      using jl by (rule id_take_nth_drop)
    have "for_each ?body ?N (?pre @ xs ! j # drop (Suc j) xs) (Map.empty, [])
            = Inl (Thrown ResourceOverlappingStages)"
      using assms(5) lp pre r2 by (simp add: for_each_split)
    with dec have "for_each ?body ?N xs (Map.empty, []) = Inl (Thrown ResourceOverlappingStages)"
      by simp
    with assms(1) el
    show "ValidatePipelineResourceSignatureDesc lim D supported
              = Inl (Thrown ResourceOverlappingStages)"
      by (simp add: ValidatePipelineResourceSignatureDesc_def)
  }
qed simp


lemma nth_same_name_resources:
  "same_name_resources s1 s2 ! 0
     = resource ''X'' s1 SHADER_RESOURCE_TYPE_CONSTANT_BUFFER SHADER_RESOURCE_VARIABLE_TYPE_STATIC"
  "same_name_resources s1 s2 ! Suc 0
     = resource ''B'' 1 SHADER_RESOURCE_TYPE_BUFFER_SRV SHADER_RESOURCE_VARIABLE_TYPE_STATIC"
  "same_name_resources s1 s2 ! 2
     = resource ''X'' s2 SHADER_RESOURCE_TYPE_TEXTURE_SRV SHADER_RESOURCE_VARIABLE_TYPE_MUTABLE"
  by (simp_all add: same_name_resources_def numeral_2_eq_2)

theorem same_name_stage_overlap_witness:
  "ValidatePipelineResourceSignatureDesc example_limits (same_name_desc 1 2) False = Inr ()
   \<and> ValidatePipelineResourceSignatureDesc example_limits (same_name_desc 1 3) False
       = Inl (Thrown ResourceOverlappingStages)"
proof -
  have lt3: "a < 3 \<longleftrightarrow> a = 0 \<or> a = Suc 0 \<or> a = 2" for a :: nat
    by auto
  have lt2: "a < 2 \<longleftrightarrow> a = 0 \<or> a = Suc 0" for a :: nat
    by auto
  have N: "unat (NumResources (same_name_desc s1 s2)) = 3" for s1 s2
    by (simp add: same_name_desc_def signature_def same_name_resources_def)
  have hdr: "header_checks example_limits (same_name_desc s1 s2) = Inr ()" for s1 s2
    by (simp add: header_checks_def same_name_desc_def signature_def same_name_resources_def
          example_limits_def)
  have res: "Resources (same_name_desc s1 s2) = Some (same_name_resources s1 s2)" for s1 s2
    by (simp add: same_name_desc_def signature_def)
  have len: "unat (NumResources (same_name_desc s1 s2)) \<le> length (same_name_resources s1 s2)"
    for s1 s2
    unfolding N by (simp add: same_name_resources_def)
  have ij: "(0::nat) < 2" "2 < unat (NumResources (same_name_desc s1 s2))" for s1 s2
    unfolding N by simp_all
  have nm: "Name (same_name_resources s1 s2 ! 0) = Some ''X''"
    "Name (same_name_resources s1 s2 ! 2) = Some ''X''" for s1 s2
    by (simp_all add: nth_same_name_resources resource_def)
  have own: "s1 \<noteq> 0 \<Longrightarrow> s2 \<noteq> 0 \<Longrightarrow>
    \<forall>a < unat (NumResources (same_name_desc s1 s2)).
           (\<exists>k. Name (same_name_resources s1 s2 ! a) = Some k \<and> k \<noteq> [])
           \<and> ShaderStages (same_name_resources s1 s2 ! a) \<noteq> SHADER_TYPE_UNKNOWN
           \<and> ArraySize (same_name_resources s1 s2 ! a) \<noteq> 0
           \<and> (Flags (same_name_resources s1 s2 ! a)
                 AND PIPELINE_RESOURCE_FLAG_RUNTIME_ARRAY example_limits = 0 \<or> False)
           \<and> Flags (same_name_resources s1 s2 ! a)
                 AND NOT (GetValidPipelineResourceFlags example_limits
                            (ResourceType (same_name_resources s1 s2 ! a))) = 0" for s1 s2
    unfolding N
    by (auto simp: lt3 nth_same_name_resources resource_def SHADER_TYPE_UNKNOWN_def)
  have others: "\<forall>a b. a < b \<and> b < unat (NumResources (same_name_desc s1 s2)) \<and> (a, b) \<noteq> (0, 2)
               \<and> Name (same_name_resources s1 s2 ! a) = Name (same_name_resources s1 s2 ! b)
           \<longrightarrow> ShaderStages (same_name_resources s1 s2 ! a)
                 AND ShaderStages (same_name_resources s1 s2 ! b) = 0" for s1 s2
    unfolding N
    by (auto simp: lt3 lt2 nth_same_name_resources resource_def)
  have comb: "\<forall>st. for_each (validate_resource example_limits False)
                   (unat (NumResources (same_name_desc 1 s2))) (same_name_resources 1 s2)
                   (Map.empty, []) = Inr st
           \<longrightarrow> UseCombinedTextureSamplers (same_name_desc 1 s2)
           \<longrightarrow> combined_samplers (same_name_desc 1 s2) (snd st) = Inr ()"
    if "s2 = 2 \<or> s2 = 3" for s2
    unfolding N using that
    by (auto simp: same_name_resources_def same_name_desc_def signature_def resource_def
          validate_resource_def used_stages_def example_limits_def SHADER_TYPE_UNKNOWN_def
          combined_samplers_def assign_sampler_def elems_def for_each_numeral)
  have imt: "for_each validate_immutable_sampler
               (unat (NumImmutableSamplers (same_name_desc s1 s2)))
               (elems (ImmutableSamplers (same_name_desc s1 s2))) Map.empty = Inr Map.empty"
    for s1 s2
    by (simp add: same_name_desc_def signature_def)
  have one: "(1 :: SHADER_TYPE) \<noteq> 0" and two: "(2 :: SHADER_TYPE) \<noteq> 0"
    and three: "(3 :: SHADER_TYPE) \<noteq> 0"
    by simp_all
  have a: "ValidatePipelineResourceSignatureDesc example_limits (same_name_desc 1 2) False = Inr ()"
    using same_name_stage_overlap [OF hdr res len ij nm own [OF one two] others comb imt,
        THEN conjunct1]
    by (simp add: nth_same_name_resources resource_def)
  have b: "ValidatePipelineResourceSignatureDesc example_limits (same_name_desc 1 3) False
       = Inl (Thrown ResourceOverlappingStages)"
    using same_name_stage_overlap [OF hdr res len ij nm own [OF one three] others comb imt,
        THEN conjunct2]
    by (simp add: nth_same_name_resources resource_def)
  from a b show ?thesis by simp
qed


end
